theory Spec2Isabelle
  imports Main "HOL-Library.Char_ord" "HOL-Library.List_Lexorder" "HOL-Library.AList"
begin

section \<open>Go strings\<close>

text \<open>
  A Go \<open>string\<close> is a sequence of bytes and \<open>len\<close> counts bytes, so a Go string is a
  \<^typ>\<open>string\<close> here (a list of 8-bit characters). The functions of package \<open>strings\<close>
  that the SDK calls are written out on bytes.
\<close>

definition HasPrefix :: "string \<Rightarrow> string \<Rightarrow> bool" where
  "HasPrefix s p = (length p \<le> length s \<and> take (length p) s = p)"

definition HasSuffix :: "string \<Rightarrow> string \<Rightarrow> bool" where
  "HasSuffix s p = (length p \<le> length s \<and> drop (length s - length p) s = p)"

text \<open>\<open>strings.Contains\<close>: is there a position of \<open>s\<close> at which \<open>sub\<close> starts.\<close>

fun Contains :: "string \<Rightarrow> string \<Rightarrow> bool" where
  "Contains [] sub = (sub = [])"
| "Contains (c # cs) sub = (HasPrefix (c # cs) sub \<or> Contains cs sub)"

text \<open>
  \<open>strings.ToUpper\<close> and \<open>strings.ToLower\<close> on the ASCII letters. Go maps every rune
  through the Unicode case tables; on a byte below 128 that is the mapping below. Bytes
  from 128 on (the UTF-8 encodings of the other runes) are left as they are: Go turns
  such a rune into the encoding of another rune, which again has only bytes from 128 on,
  except for U+0131 and U+017F, whose upper case is \<open>I\<close> and \<open>S\<close>. No string that the SDK
  searches for after \<open>ToUpper\<close> has an \<open>I\<close> or an \<open>S\<close>.
\<close>

definition lower_letters :: string where
  "lower_letters = ''abcdefghijklmnopqrstuvwxyz''"

definition upper_letters :: string where
  "upper_letters = ''ABCDEFGHIJKLMNOPQRSTUVWXYZ''"

definition upper_byte :: "char \<Rightarrow> char" where
  "upper_byte c = (case map_of (zip lower_letters upper_letters) c of None \<Rightarrow> c | Some u \<Rightarrow> u)"

definition lower_byte :: "char \<Rightarrow> char" where
  "lower_byte c = (case map_of (zip upper_letters lower_letters) c of None \<Rightarrow> c | Some l \<Rightarrow> l)"

definition ToUpper :: "string \<Rightarrow> string" where
  "ToUpper s = map upper_byte s"

definition ToLower :: "string \<Rightarrow> string" where
  "ToLower s = map lower_byte s"

text \<open>\<open>strconv.Itoa\<close> and \<open>fmt.Sprintf("%d", n)\<close>: the decimal numeral of an integer.\<close>

definition digit_char :: "nat \<Rightarrow> char" where
  "digit_char d = ''0123456789'' ! d"

fun nat_digits :: "nat \<Rightarrow> string" where
  "nat_digits n = (if n < 10 then [digit_char n] else nat_digits (n div 10) @ [digit_char (n mod 10)])"

definition Itoa :: "int \<Rightarrow> string" where
  "Itoa n = (if n < 0 then CHR ''-'' # nat_digits (nat (- n)) else nat_digits (nat n))"

section \<open>Errors\<close>

text \<open>
  The SDK declares no error types: every error it makes is a value of \<open>fmt.Errorf\<close>,
  which has a message and, when the format ends in \<open>%w\<close>, the error it wraps. \<open>Err\<close>
  is an error with its message, \<open>Wrap\<close> an error whose message is the given prefix
  followed by the message of the wrapped error. The errors of the Go library are
  \<open>Err\<close> values with the library's message.
\<close>

datatype error = Err string | Wrap string error

fun Error :: "error \<Rightarrow> string" where
  "Error (Err message) = message"
| "Error (Wrap prefix cause) = prefix @ Error cause"

section \<open>Dataset names (package datasets)\<close>

text \<open>
  The regular expressions of the validators are a character class followed by a starred
  character class, anchored at both ends (\<open>$\<close> is the end of the text in Go's syntax
  without the \<open>m\<close> flag). A pattern is a list of items, each one character of a class
  or any number of characters of a class; a class is a list of inclusive ranges. Go
  matches runes; a byte from 128 on belongs to a rune that is in no ASCII range.
\<close>

type_synonym char_class = "(char \<times> char) list"

datatype item = One char_class | Many char_class

fun in_class :: "char_class \<Rightarrow> char \<Rightarrow> bool" where
  "in_class [] c = False"
| "in_class ((lo, hi) # rs) c = ((lo \<le> c \<and> c \<le> hi) \<or> in_class rs c)"

fun MatchString :: "item list \<Rightarrow> string \<Rightarrow> bool" where
  "MatchString [] s = (s = [])"
| "MatchString (One cl # its) [] = False"
| "MatchString (One cl # its) (c # cs) = (in_class cl c \<and> MatchString its cs)"
| "MatchString (Many cl # its) [] = MatchString its []"
| "MatchString (Many cl # its) (c # cs) =
     ((in_class cl c \<and> MatchString (Many cl # its) cs) \<or> MatchString its (c # cs))"

text \<open>\<^verbatim>\<open>^[A-Z@#$][A-Z0-9@#$.-]*$\<close>\<close>

definition validPattern :: "item list" where
  "validPattern =
     [One [(CHR ''A'', CHR ''Z''), (CHR ''@'', CHR ''@''), (CHR ''#'', CHR ''#''), (CHR ''$'', CHR ''$'')],
      Many [(CHR ''A'', CHR ''Z''), (CHR ''0'', CHR ''9''), (CHR ''@'', CHR ''@''), (CHR ''#'', CHR ''#''),
            (CHR ''$'', CHR ''$''), (CHR ''.'', CHR ''.''), (CHR ''-'', CHR ''-'')]]"

text \<open>\<open>ValidateDatasetName\<close>; \<open>None\<close> is the \<open>nil\<close> error.\<close>

definition ValidateDatasetName :: "string \<Rightarrow> error option" where
  "ValidateDatasetName name =
     (if name = [] then Some (Err ''dataset name cannot be empty'')
      else if length name > 44 then Some (Err ''dataset name cannot exceed 44 characters'')
      else if \<not> MatchString validPattern name then
        Some (Err ''dataset name contains invalid characters'')
      else if Contains name ''..'' then
        Some (Err ''dataset name cannot contain consecutive periods'')
      else if HasPrefix name ''.'' \<or> HasSuffix name ''.'' then
        Some (Err ''dataset name cannot start or end with a period'')
      else if Contains name ''--'' then
        Some (Err ''dataset name cannot contain consecutive hyphens'')
      else None)"

text \<open>
  The rules of a dataset name as the specification words them: the characters allowed
  first and later, and a character that comes twice in a row.
\<close>

definition first_char_ok :: "char \<Rightarrow> bool" where
  "first_char_ok c = ((CHR ''A'' \<le> c \<and> c \<le> CHR ''Z'') \<or> c = CHR ''@'' \<or> c = CHR ''#'' \<or> c = CHR ''$'')"

definition later_char_ok :: "char \<Rightarrow> bool" where
  "later_char_ok c =
     ((CHR ''A'' \<le> c \<and> c \<le> CHR ''Z'') \<or> (CHR ''0'' \<le> c \<and> c \<le> CHR ''9'') \<or>
      c = CHR ''@'' \<or> c = CHR ''#'' \<or> c = CHR ''$'' \<or> c = CHR ''-'' \<or> c = CHR ''.'')"

definition doubled :: "char \<Rightarrow> string \<Rightarrow> bool" where
  "doubled c s = (\<exists>i. Suc i < length s \<and> s ! i = c \<and> s ! Suc i = c)"

section \<open>Job completion (package jobs)\<close>

definition completedStatuses :: "string list" where
  "completedStatuses =
     [''OUTPUT'', ''CC 0000'', ''CC 0001'', ''CC 0002'', ''CC 0003'', ''CC 0004'', ''ABEND'']"

text \<open>The loop of \<open>isJobComplete\<close> over the completed statuses, returning at the first hit.\<close>

fun contains_any :: "string \<Rightarrow> string list \<Rightarrow> bool" where
  "contains_any status [] = False"
| "contains_any status (completedStatus # rest) =
     (if Contains status completedStatus then True else contains_any status rest)"

definition isJobComplete :: "string \<Rightarrow> bool" where
  "isJobComplete status = contains_any (ToUpper status) completedStatuses"

section \<open>Profiles and sessions (package profile)\<close>

text \<open>
  The profile with the fields that \<open>NewSession\<close> and the callers of the SDK set:
  \<open>Port\<close> and \<open>ResponseTimeout\<close> are Go \<open>int\<close>s, on which the code does no
  arithmetic.
\<close>

record ZOSMFProfile =
  Name :: string
  Host :: string
  Port :: int
  User :: string
  Password :: string
  Protocol :: string
  BasePath :: string
  RejectUnauthorized :: bool
  ResponseTimeout :: int

text \<open>
  What \<open>NewSession\<close> fixes of the \<open>http.Client\<close>: the TLS setting of its transport
  and its timeout in nanoseconds.
\<close>

record Client =
  InsecureSkipVerify :: bool
  Timeout :: int

text \<open>
  The session. \<open>Headers\<close> is a Go map: \<open>None\<close> is the \<open>nil\<close> map of a session
  built without \<open>NewSession\<close>, \<open>Some\<close> holds the entries, one per key. The session
  points to its profile; no function here writes through that pointer, so the record
  holds the profile's value.
\<close>

record Session =
  Profile :: ZOSMFProfile
  Session_Host :: string
  Session_Port :: int
  Session_User :: string
  Session_Password :: string
  BaseURL :: string
  HTTPClient :: Client
  Headers :: "(string \<times> string) list option"

definition NewSession :: "ZOSMFProfile \<Rightarrow> error + Session" where
  "NewSession p =
     (let client = \<lparr>InsecureSkipVerify = \<not> RejectUnauthorized p, Timeout = 30 * 1000000000\<rparr>;
          protocol = Protocol p;
          protocol = (if protocol = [] then ''https'' else protocol);
          protocol = (if Port p = 80 then ''http'' else if Port p = 8080 then ''http'' else protocol);
          baseURL = protocol @ ''://'' @ Host p;
          baseURL = (if Port p \<noteq> 0 \<and> Port p \<noteq> 80 \<and> Port p \<noteq> 443
                     then baseURL @ '':'' @ Itoa (Port p) else baseURL);
          baseURL = (if BasePath p \<noteq> [] then baseURL @ BasePath p else baseURL);
          headers = [(''Content-Type'', ''application/json''), (''Accept'', ''application/json'')]
      in Inr \<lparr>Profile = p, Session_Host = Host p, Session_Port = Port p, Session_User = User p,
               Session_Password = Password p, BaseURL = baseURL, HTTPClient = client,
               Headers = Some headers\<rparr>)"

definition GetBaseURL :: "Session \<Rightarrow> string" where
  "GetBaseURL s = BaseURL s"

definition GetHTTPClient :: "Session \<Rightarrow> Client" where
  "GetHTTPClient s = HTTPClient s"

definition GetHeaders :: "Session \<Rightarrow> (string \<times> string) list option" where
  "GetHeaders s = Headers s"

text \<open>
  \<open>AddHeader\<close> assigns to an entry of the map, which panics on a \<open>nil\<close> map (\<open>Inl\<close>);
  \<open>RemoveHeader\<close> deletes an entry, which does nothing on a \<open>nil\<close> map.
\<close>

definition AddHeader :: "string \<Rightarrow> string \<Rightarrow> Session \<Rightarrow> string + Session" where
  "AddHeader key val s =
     (case Headers s of
        None \<Rightarrow> Inl ''assignment to entry in nil map''
      | Some m \<Rightarrow> Inr (s\<lparr>Headers := Some (AList.update key val m)\<rparr>))"

definition RemoveHeader :: "string \<Rightarrow> Session \<Rightarrow> Session" where
  "RemoveHeader key s =
     (case Headers s of
        None \<Rightarrow> s
      | Some m \<Rightarrow> s\<lparr>Headers := Some (AList.delete key m)\<rparr>)"

text \<open>
  A sequence of header calls on one session: the session as the calls leave it, and the
  panic that ended the sequence early, if one did.
\<close>

datatype header_call = Add string string | Remove string

fun header_calls :: "header_call list \<Rightarrow> Session \<Rightarrow> Session \<times> string option" where
  "header_calls [] s = (s, None)"
| "header_calls (Add key val # rest) s =
     (case AddHeader key val s of
        Inl panic \<Rightarrow> (s, Some panic)
      | Inr s' \<Rightarrow> header_calls rest s')"
| "header_calls (Remove key # rest) s = header_calls rest (RemoveHeader key s)"

section \<open>URLs and headers (packages net/url and net/http)\<close>

text \<open>
  \<open>url.PathEscape\<close> and \<open>url.QueryEscape\<close>: letters, digits and \<open>-_.~\<close> stay; a path
  segment also keeps \<open>$&+:=@\<close>; a query component writes a space as \<open>+\<close>; every other
  byte becomes \<open>%\<close> and two upper-case hexadecimal digits.
\<close>

definition unreserved :: "char \<Rightarrow> bool" where
  "unreserved c =
     ((CHR ''a'' \<le> c \<and> c \<le> CHR ''z'') \<or> (CHR ''A'' \<le> c \<and> c \<le> CHR ''Z'') \<or>
      (CHR ''0'' \<le> c \<and> c \<le> CHR ''9'') \<or> c \<in> set ''-_.~'')"

definition percent :: "char \<Rightarrow> string" where
  "percent c =
     [CHR ''%'', ''0123456789ABCDEF'' ! ((of_char c :: nat) div 16),
      ''0123456789ABCDEF'' ! ((of_char c :: nat) mod 16)]"

definition PathEscape :: "string \<Rightarrow> string" where
  "PathEscape s = concat (map (\<lambda>c. if unreserved c \<or> c \<in> set ''$&+:=@'' then [c] else percent c) s)"

definition QueryEscape :: "string \<Rightarrow> string" where
  "QueryEscape s =
     concat (map (\<lambda>c. if unreserved c then [c] else if c = CHR '' '' then ''+'' else percent c) s)"

text \<open>
  \<open>url.Values\<close> with the one value per key that \<open>Set\<close> leaves, as a list of entries
  with distinct keys. \<open>Encode\<close> writes the entries in the order of their keys.
\<close>

type_synonym Values = "(string \<times> string) list"

definition Values_Set :: "string \<Rightarrow> string \<Rightarrow> Values \<Rightarrow> Values" where
  "Values_Set key val v = AList.update key val v"

fun join_amp :: "string list \<Rightarrow> string" where
  "join_amp [] = []"
| "join_amp [x] = x"
| "join_amp (x # y # ys) = x @ ''&'' @ join_amp (y # ys)"

definition Encode :: "Values \<Rightarrow> string" where
  "Encode v = join_amp (map (\<lambda>(key, val). QueryEscape key @ ''='' @ QueryEscape val) (sort_key fst v))"

text \<open>
  \<open>http.Header\<close> after \<open>Set\<close> calls only: one value per canonical key.
  \<open>textproto.CanonicalMIMEHeaderKey\<close> leaves a key with a byte that is no token
  character as it is, and otherwise writes the first letter and every letter after a
  hyphen in upper case and the other letters in lower case.
\<close>

definition token_byte :: "char \<Rightarrow> bool" where
  "token_byte c =
     ((CHR ''a'' \<le> c \<and> c \<le> CHR ''z'') \<or> (CHR ''A'' \<le> c \<and> c \<le> CHR ''Z'') \<or>
      (CHR ''0'' \<le> c \<and> c \<le> CHR ''9'') \<or> c \<in> set ''!#$%&*+-.^_`|~'' \<or> c = CHR 0x27)"

fun canonical_from :: "bool \<Rightarrow> string \<Rightarrow> string" where
  "canonical_from upper [] = []"
| "canonical_from upper (c # cs) =
     (let c' = (if upper then upper_byte c else lower_byte c)
      in c' # canonical_from (c' = CHR ''-'') cs)"

definition CanonicalMIMEHeaderKey :: "string \<Rightarrow> string" where
  "CanonicalMIMEHeaderKey s = (if list_all token_byte s then canonical_from True s else s)"

type_synonym Header = "(string \<times> string) list"

definition Header_Set :: "string \<Rightarrow> string \<Rightarrow> Header \<Rightarrow> Header" where
  "Header_Set key val h = AList.update (CanonicalMIMEHeaderKey key) val h"

definition Header_Get :: "Header \<Rightarrow> string \<Rightarrow> string option" where
  "Header_Get h key = map_of h (CanonicalMIMEHeaderKey key)"

section \<open>JSON values (package encoding/json)\<close>

text \<open>
  The value that a JSON text denotes; a number is kept as its literal. \<open>json.Marshal\<close>
  of a Go map is an object with the entries in the order of their keys; the request
  bodies of the SDK are kept as the values they denote. \<open>json.Marshal\<close> does not fail
  on the maps of strings that the SDK gives it, so the branches for its error have no
  counterpart here.
\<close>

datatype json =
    JNull
  | JBool bool
  | JNumber string
  | JString string
  | JArray "json list"
  | JObject "(string \<times> json) list"

definition Marshal_map :: "(string \<times> json) list \<Rightarrow> json" where
  "Marshal_map m = JObject (sort_key fst m)"

section \<open>Requests, responses and the world outside\<close>

record Request =
  Method :: string
  URL :: string
  ReqHeader :: Header
  ReqBody :: "json option"

text \<open>
  A response: its status code, the bytes of its body, and the error with which reading
  the body ends when reading fails.
\<close>

record Response =
  StatusCode :: int
  Body :: string
  BodyError :: "string option"

definition ReadAll :: "Response \<Rightarrow> string \<times> string option" where
  "ReadAll resp = (Body resp, BodyError resp)"

text \<open>
  The records of package jobs, with the fields that the source reads and writes; their
  declarations are not in the source at hand.
\<close>

record Job =
  JobID :: string
  JobName :: string
  Owner :: string
  Status :: string

record JobList =
  Jobs :: "Job list"

record SpoolFile =
  ID :: int
  DDName :: string

record SubmitJobResponse =
  Submitted_JobID :: string
  Submitted_JobName :: string

record SubmitJobRequest =
  JobStatement :: string
  JobDataSet :: string
  JobLocalFile :: string
  Volume :: string
  Directory :: string
  Extension :: string

record JobFilter =
  Filter_Owner :: string
  Filter_Prefix :: string
  Filter_MaxJobs :: int
  Filter_JobID :: string
  Filter_JobName :: string
  Filter_Status :: string
  Filter_UserCorrelator :: string

text \<open>The records of package datasets; a \<open>time.Time\<close> is an instant in nanoseconds.\<close>

record Space =
  Primary :: int
  Secondary :: int
  Unit :: string
  Space_Directory :: int

record Dataset =
  Dataset_Name :: string
  Dataset_Type :: string
  Dataset_Volume :: string
  Dataset_Space :: Space
  RecordFormat :: string
  RecordLength :: int
  BlockSize :: int
  Dataset_Directory :: int
  Created :: int
  Modified :: int
  Size :: int
  Used :: int
  Extents :: int
  Referenced :: int
  Expiration :: int
  Dataset_Owner :: string
  Security :: string

record DatasetList =
  Datasets :: "Dataset list"
  Returned :: int
  Total :: int

record DatasetFilter =
  Name_Filter :: string
  Type_Filter :: string
  Volume_Filter :: string
  Owner_Filter :: string
  Limit :: int

text \<open>
  What the SDK calls and does not define. \<open>NewRequest_error\<close> is the error with which
  \<open>http.NewRequest\<close> rejects a method and a URL. \<open>RoundTrip\<close> is the answer of the network
  to the k-th request of the run (\<open>Inl\<close> is the error of \<open>Client.Do\<close>) and
  \<open>RoundTripTime\<close> the time that request takes in nanoseconds. \<open>Unmarshal\<close> is the JSON
  value of a text and \<open>Job_of_json\<close> the conversion of a value to a \<open>Job\<close>; \<open>None\<close> is
  an error of \<open>json.Unmarshal\<close>, which \<open>ListJobs\<close>, their only caller, tests and drops.
  The other four decode a response body or a text into a struct (\<open>Inl\<close> is the
  message of the error of encoding/json).
\<close>

record env =
  NewRequest_error :: "string \<Rightarrow> string \<Rightarrow> string option"
  RoundTrip :: "nat \<Rightarrow> Request \<Rightarrow> string + Response"
  RoundTripTime :: "nat \<Rightarrow> nat"
  Unmarshal :: "string \<Rightarrow> json option"
  Job_of_json :: "json \<Rightarrow> Job option"
  Decode_Job :: "Response \<Rightarrow> string + Job"
  Decode_SpoolFiles :: "Response \<Rightarrow> string + SpoolFile list"
  Decode_SubmitJobResponse :: "Response \<Rightarrow> string + SubmitJobResponse"
  Unmarshal_DatasetList :: "string \<Rightarrow> string + DatasetList"

text \<open>
  The world that a call changes: the requests sent and the sleeps taken, in order, and
  the monotonic clock in nanoseconds. The clock moves in round trips and sleeps only.
  A manager is taken with the session it was made with, which is not \<open>nil\<close> and has a
  client; the operations take the session in its place.
\<close>

datatype event = Sent Request | Slept int

record world =
  events :: "event list"
  clock :: int

fun sent_request :: "event \<Rightarrow> Request list" where
  "sent_request (Sent r) = [r]"
| "sent_request (Slept d) = []"

definition requests :: "world \<Rightarrow> Request list" where
  "requests w = concat (map sent_request (events w))"

definition NewRequest :: "env \<Rightarrow> string \<Rightarrow> string \<Rightarrow> json option \<Rightarrow> string + Request" where
  "NewRequest env method url body =
     (case NewRequest_error env method url of
        Some err \<Rightarrow> Inl err
      | None \<Rightarrow> Inr \<lparr>Method = method, URL = url, ReqHeader = [], ReqBody = body\<rparr>)"

definition Do :: "env \<Rightarrow> Request \<Rightarrow> world \<Rightarrow> (string + Response) \<times> world" where
  "Do env req w =
     (let k = length (requests w)
      in (RoundTrip env k req,
          w\<lparr>events := events w @ [Sent req], clock := clock w + int (RoundTripTime env k)\<rparr>))"

text \<open>\<open>time.Sleep\<close> returns at once for a duration that is not positive.\<close>

definition Sleep :: "int \<Rightarrow> world \<Rightarrow> world" where
  "Sleep d w = w\<lparr>events := events w @ [Slept d], clock := clock w + max 0 d\<rparr>"

text \<open>
  The loop \<open>for key, value := range session.GetHeaders() { req.Header.Set(key, value) }\<close>.
  Go ranges over a map in an order it does not fix; the model takes the entries in the
  order of the list. A \<open>nil\<close> map has no entries.
\<close>

definition add_session_headers :: "Session \<Rightarrow> Request \<Rightarrow> Request" where
  "add_session_headers session req =
     (case GetHeaders session of
        None \<Rightarrow> req
      | Some m \<Rightarrow> req\<lparr>ReqHeader := fold (\<lambda>(key, val). Header_Set key val) m (ReqHeader req)\<rparr>)"

definition set_header :: "string \<Rightarrow> string \<Rightarrow> Request \<Rightarrow> Request" where
  "set_header key val req = req\<lparr>ReqHeader := Header_Set key val (ReqHeader req)\<rparr>"

text \<open>
  The error of every operation for a response outside its success codes:
  \<open>fmt.Errorf("API request failed with status %d: %s", resp.StatusCode, string(body))\<close>,
  where \<open>body\<close> is what \<open>io.ReadAll\<close> got, its error dropped.
\<close>

definition api_error :: "Response \<Rightarrow> error" where
  "api_error resp =
     Err (''API request failed with status '' @ Itoa (StatusCode resp) @ '': '' @ fst (ReadAll resp))"

section \<open>The job manager (package jobs)\<close>

text \<open>The endpoint templates, applied to their arguments as \<open>fmt.Sprintf\<close> does.\<close>

definition JobsEndpoint :: string where
  "JobsEndpoint = ''/restjobs/jobs''"

definition JobByCorrelatorEndpoint :: "string \<Rightarrow> string" where
  "JobByCorrelatorEndpoint correlator = ''/restjobs/jobs/'' @ correlator"

definition FilesEndpoint :: string where
  "FilesEndpoint = ''/files''"

definition RecordsEndpoint :: string where
  "RecordsEndpoint = ''/records''"

text \<open>
  Decoding a JSON value into a slice: an array element by element, \<open>null\<close> to the
  \<open>nil\<close> slice, anything else is a type error. A \<open>nil\<close> slice and an empty slice are
  both the empty list.
\<close>

fun slice_of_json :: "(json \<Rightarrow> 'a option) \<Rightarrow> json \<Rightarrow> 'a list option" where
  "slice_of_json elem (JArray js) = those (map elem js)"
| "slice_of_json elem JNull = Some []"
| "slice_of_json elem _ = None"

text \<open>
  Modelled from the spec: the declaration of \<open>JobList\<close> is not in the source at hand; the
  specification gives the object shape of a job list a \<open>jobs\<close> field, and the source
  uses the Go field \<open>Jobs\<close> only. Decoding an object into the struct takes the members
  in their order; a member whose key is the field's name, in any case of the ASCII
  letters, is decoded into the field, the other members are skipped. \<open>null\<close> leaves the
  struct as it is, and any other value is a type error.
\<close>

definition field_matches :: "string \<Rightarrow> string \<Rightarrow> bool" where
  "field_matches name key = (ToLower key = ToLower name)"

fun object_into_JobList :: "env \<Rightarrow> (string \<times> json) list \<Rightarrow> JobList \<Rightarrow> JobList option" where
  "object_into_JobList env [] jobList = Some jobList"
| "object_into_JobList env ((key, v) # members) jobList =
     (if field_matches ''jobs'' key then
        (case slice_of_json (Job_of_json env) v of
           None \<Rightarrow> None
         | Some js \<Rightarrow> object_into_JobList env members (jobList\<lparr>Jobs := js\<rparr>))
      else object_into_JobList env members jobList)"

fun JobList_of_json :: "env \<Rightarrow> json \<Rightarrow> JobList option" where
  "JobList_of_json env (JObject members) = object_into_JobList env members \<lparr>Jobs = []\<rparr>"
| "JobList_of_json env JNull = Some \<lparr>Jobs = []\<rparr>"
| "JobList_of_json env _ = None"

text \<open>
  The end of \<open>ListJobs\<close>: the body is decoded as an object first, and that result is
  taken when it has a job or the body is the two bytes \<open>{}\<close>; then as an array.
\<close>

definition decode_job_list :: "env \<Rightarrow> string \<Rightarrow> error + JobList" where
  "decode_job_list env bodyBytes =
     (let fallback =
        (case Option.bind (Unmarshal env bodyBytes) (slice_of_json (Job_of_json env)) of
           Some jobsArr \<Rightarrow> Inr \<lparr>Jobs = jobsArr\<rparr>
         | None \<Rightarrow> Inl (Err (''failed to decode response: '' @ bodyBytes)))
      in case Option.bind (Unmarshal env bodyBytes) (JobList_of_json env) of
           Some jobList \<Rightarrow>
             if length (Jobs jobList) > 0 \<or> bodyBytes = ''{}'' then Inr jobList else fallback
         | None \<Rightarrow> fallback)"

definition ListJobs_params :: "JobFilter option \<Rightarrow> Values" where
  "ListJobs_params filter' =
     (case filter' of
        None \<Rightarrow> []
      | Some f \<Rightarrow>
          (let params = [];
               params = (if Filter_Owner f \<noteq> [] then Values_Set ''owner'' (Filter_Owner f) params else params);
               params = (if Filter_Prefix f \<noteq> [] then Values_Set ''prefix'' (Filter_Prefix f) params else params);
               params = (if Filter_MaxJobs f > 0 then Values_Set ''max-jobs'' (Itoa (Filter_MaxJobs f)) params else params);
               params = (if Filter_JobID f \<noteq> [] then Values_Set ''jobid'' (Filter_JobID f) params else params);
               params = (if Filter_JobName f \<noteq> [] then Values_Set ''jobname'' (Filter_JobName f) params else params);
               params = (if Filter_Status f \<noteq> [] then Values_Set ''status'' (Filter_Status f) params else params);
               params = (if Filter_UserCorrelator f \<noteq> []
                         then Values_Set ''user-correlator'' (Filter_UserCorrelator f) params else params)
           in params))"

definition ListJobs :: "env \<Rightarrow> Session \<Rightarrow> JobFilter option \<Rightarrow> world \<Rightarrow> (error + JobList) \<times> world" where
  "ListJobs env session filter' w =
     (let params = ListJobs_params filter';
          apiURL = GetBaseURL session @ JobsEndpoint;
          apiURL = (if length params > 0 then apiURL @ ''?'' @ Encode params else apiURL)
      in case NewRequest env ''GET'' apiURL None of
           Inl err \<Rightarrow> (Inl (Wrap ''failed to create request: '' (Err err)), w)
         | Inr req \<Rightarrow>
             (case Do env (add_session_headers session req) w of
                (Inl err, w') \<Rightarrow> (Inl (Wrap ''failed to make request: '' (Err err)), w')
              | (Inr resp, w') \<Rightarrow>
                  if StatusCode resp \<noteq> 200 then (Inl (api_error resp), w')
                  else (case ReadAll resp of
                          (bodyBytes, Some err) \<Rightarrow>
                            (Inl (Wrap ''failed to read response: '' (Err err)), w')
                        | (bodyBytes, None) \<Rightarrow> (decode_job_list env bodyBytes, w'))))"

definition GetJob :: "env \<Rightarrow> Session \<Rightarrow> string \<Rightarrow> world \<Rightarrow> (error + Job) \<times> world" where
  "GetJob env session jobID w =
     (let apiURL = GetBaseURL session @ JobByCorrelatorEndpoint (PathEscape jobID)
      in case NewRequest env ''GET'' apiURL None of
           Inl err \<Rightarrow> (Inl (Wrap ''failed to create request: '' (Err err)), w)
         | Inr req \<Rightarrow>
             (case Do env (add_session_headers session req) w of
                (Inl err, w') \<Rightarrow> (Inl (Wrap ''failed to make request: '' (Err err)), w')
              | (Inr resp, w') \<Rightarrow>
                  if StatusCode resp \<noteq> 200 then (Inl (api_error resp), w')
                  else (case Decode_Job env resp of
                          Inl err \<Rightarrow> (Inl (Wrap ''failed to decode response: '' (Err err)), w')
                        | Inr job \<Rightarrow> (Inr job, w'))))"

definition GetJobStatus :: "env \<Rightarrow> Session \<Rightarrow> string \<Rightarrow> world \<Rightarrow> (error + string) \<times> world" where
  "GetJobStatus env session jobID w =
     (case GetJob env session jobID w of
        (Inl err, w') \<Rightarrow> (Inl err, w')
      | (Inr job, w') \<Rightarrow> (Inr (Status job), w'))"

text \<open>
  The body of a submission, a Go map of strings: the first source that is set decides,
  and \<open>None\<close> is the case of no source.
\<close>

definition submit_body :: "SubmitJobRequest \<Rightarrow> (string \<times> string) list option" where
  "submit_body request =
     (if JobStatement request \<noteq> [] then Some [(''jobStatement'', JobStatement request)]
      else if JobDataSet request \<noteq> [] then
        (let requestBody = [(''jobDataSet'', JobDataSet request)];
             requestBody = (if Volume request \<noteq> []
                            then AList.update ''volume'' (Volume request) requestBody else requestBody)
         in Some requestBody)
      else if JobLocalFile request \<noteq> [] then
        (let requestBody = [(''jobLocalFile'', JobLocalFile request)];
             requestBody = (if Directory request \<noteq> []
                            then AList.update ''directory'' (Directory request) requestBody else requestBody);
             requestBody = (if Extension request \<noteq> []
                            then AList.update ''extension'' (Extension request) requestBody else requestBody)
         in Some requestBody)
      else None)"

definition Marshal_strings :: "(string \<times> string) list \<Rightarrow> json" where
  "Marshal_strings m = Marshal_map (map (\<lambda>(key, val). (key, JString val)) m)"

definition SubmitJob ::
  "env \<Rightarrow> Session \<Rightarrow> SubmitJobRequest \<Rightarrow> world \<Rightarrow> (error + SubmitJobResponse) \<times> world" where
  "SubmitJob env session request w =
     (let apiURL = GetBaseURL session @ JobsEndpoint
      in case submit_body request of
           None \<Rightarrow>
             (Inl (Err ''no job source specified (jobStatement, jobDataSet, or jobLocalFile)''), w)
         | Some requestBody \<Rightarrow>
             (case NewRequest env ''PUT'' apiURL (Some (Marshal_strings requestBody)) of
                Inl err \<Rightarrow> (Inl (Wrap ''failed to create request: '' (Err err)), w)
              | Inr req \<Rightarrow>
                  (case Do env (add_session_headers session req) w of
                     (Inl err, w') \<Rightarrow> (Inl (Wrap ''failed to make request: '' (Err err)), w')
                   | (Inr resp, w') \<Rightarrow>
                       if StatusCode resp \<noteq> 201 \<and> StatusCode resp \<noteq> 200 \<and> StatusCode resp \<noteq> 202
                       then (Inl (api_error resp), w')
                       else (case Decode_SubmitJobResponse env resp of
                               Inl err \<Rightarrow> (Inl (Wrap ''failed to decode response: '' (Err err)), w')
                             | Inr submitResponse \<Rightarrow> (Inr submitResponse, w')))))"

definition GetSpoolFiles :: "env \<Rightarrow> Session \<Rightarrow> string \<Rightarrow> world \<Rightarrow> (error + SpoolFile list) \<times> world" where
  "GetSpoolFiles env session jobID w =
     (let apiURL = GetBaseURL session @ JobByCorrelatorEndpoint (PathEscape jobID) @ FilesEndpoint
      in case NewRequest env ''GET'' apiURL None of
           Inl err \<Rightarrow> (Inl (Wrap ''failed to create request: '' (Err err)), w)
         | Inr req \<Rightarrow>
             (case Do env (add_session_headers session req) w of
                (Inl err, w') \<Rightarrow> (Inl (Wrap ''failed to make request: '' (Err err)), w')
              | (Inr resp, w') \<Rightarrow>
                  if StatusCode resp \<noteq> 200 then (Inl (api_error resp), w')
                  else (case Decode_SpoolFiles env resp of
                          Inl err \<Rightarrow> (Inl (Wrap ''failed to decode response: '' (Err err)), w')
                        | Inr spoolFiles \<Rightarrow> (Inr spoolFiles, w'))))"

definition GetSpoolFileContent ::
  "env \<Rightarrow> Session \<Rightarrow> string \<Rightarrow> int \<Rightarrow> world \<Rightarrow> (error + string) \<times> world" where
  "GetSpoolFileContent env session jobID spoolID w =
     (let apiURL = GetBaseURL session @ JobByCorrelatorEndpoint (PathEscape jobID) @ ''/files/''
                     @ Itoa spoolID @ RecordsEndpoint
      in case NewRequest env ''GET'' apiURL None of
           Inl err \<Rightarrow> (Inl (Wrap ''failed to create request: '' (Err err)), w)
         | Inr req \<Rightarrow>
             (case Do env (add_session_headers session req) w of
                (Inl err, w') \<Rightarrow> (Inl (Wrap ''failed to make request: '' (Err err)), w')
              | (Inr resp, w') \<Rightarrow>
                  if StatusCode resp \<noteq> 200 then (Inl (api_error resp), w')
                  else (case ReadAll resp of
                          (body, Some err) \<Rightarrow>
                            (Inl (Wrap ''failed to read response body: '' (Err err)), w')
                        | (body, None) \<Rightarrow> (Inr body, w'))))"

text \<open>
  The loop of \<open>WaitForJobCompletion\<close>. It has no bound of its own, so it is a partial
  function: \<open>None\<close> is a wait that never returns. \<open>time.Since(startTime)\<close> is the
  clock's reading less the start.
\<close>

partial_function (option) wait_loop ::
  "env \<Rightarrow> Session \<Rightarrow> string \<Rightarrow> int \<Rightarrow> int \<Rightarrow> int \<Rightarrow> world \<Rightarrow> ((error + string) \<times> world) option" where
  "wait_loop env session correlator timeout pollInterval startTime w =
     (if clock w - startTime > timeout then
        Some (Inl (Err (''timeout waiting for job '' @ correlator @ '' to complete'')), w)
      else
        (case GetJobStatus env session correlator w of
           (Inl err, w') \<Rightarrow> Some (Inl (Wrap ''failed to get job status: '' err), w')
         | (Inr status, w') \<Rightarrow>
             if isJobComplete status then Some (Inr status, w')
             else wait_loop env session correlator timeout pollInterval startTime (Sleep pollInterval w')))"

definition WaitForJobCompletion ::
  "env \<Rightarrow> Session \<Rightarrow> string \<Rightarrow> int \<Rightarrow> int \<Rightarrow> world \<Rightarrow> ((error + string) \<times> world) option" where
  "WaitForJobCompletion env session correlator timeout pollInterval w =
     wait_loop env session correlator timeout pollInterval (clock w) w"

text \<open>
  The loop of \<open>GetJobOutput\<close> over the spool files; \<open>output\<close> is the Go map under
  construction, one entry per key.
\<close>

fun collect_output ::
  "env \<Rightarrow> Session \<Rightarrow> string \<Rightarrow> SpoolFile list \<Rightarrow> (string \<times> string) list \<Rightarrow> world \<Rightarrow>
   (string \<times> string) list \<times> world" where
  "collect_output env session correlator [] output w = (output, w)"
| "collect_output env session correlator (spoolFile # rest) output w =
     (case GetSpoolFileContent env session correlator (ID spoolFile) w of
        (Inl err, w') \<Rightarrow> collect_output env session correlator rest output w'
      | (Inr content, w') \<Rightarrow>
          collect_output env session correlator rest (AList.update (DDName spoolFile) content output) w')"

definition GetJobOutput ::
  "env \<Rightarrow> Session \<Rightarrow> string \<Rightarrow> world \<Rightarrow> (error + (string \<times> string) list) \<times> world" where
  "GetJobOutput env session correlator w =
     (case GetSpoolFiles env session correlator w of
        (Inl err, w') \<Rightarrow> (Inl (Wrap ''failed to get spool files: '' err), w')
      | (Inr spoolFiles, w') \<Rightarrow>
          (case collect_output env session correlator spoolFiles [] w' of
             (output, w'') \<Rightarrow> (Inr output, w'')))"

section \<open>The dataset manager (package datasets)\<close>

definition DatasetsEndpoint :: string where
  "DatasetsEndpoint = ''/restfiles/ds''"

definition DatasetByNameEndpoint :: "string \<Rightarrow> string" where
  "DatasetByNameEndpoint name = ''/restfiles/ds/'' @ name"

text \<open>
  The query parameters of \<open>ListDatasets\<close>: the fields of the filter that are set, and
  the user's own datasets when neither \<open>dslevel\<close> nor \<open>volser\<close> came from the filter.
\<close>

definition ListDatasets_params :: "Session \<Rightarrow> DatasetFilter option \<Rightarrow> Values" where
  "ListDatasets_params session filter' =
     (let from_filter =
        (case filter' of
           None \<Rightarrow> ([], False)
         | Some f \<Rightarrow>
             (let params = [];
                  hasRequiredParam = False;
                  (params, hasRequiredParam) =
                    (if Name_Filter f \<noteq> [] then (Values_Set ''dslevel'' (Name_Filter f) params, True)
                     else (params, hasRequiredParam));
                  (params, hasRequiredParam) =
                    (if Volume_Filter f \<noteq> [] then (Values_Set ''volser'' (Volume_Filter f) params, True)
                     else (params, hasRequiredParam));
                  params =
                    (if Owner_Filter f \<noteq> [] then Values_Set ''start'' (Owner_Filter f) params else params)
              in (params, hasRequiredParam)))
      in case from_filter of
           (params, hasRequiredParam) \<Rightarrow>
             if \<not> hasRequiredParam then Values_Set ''dslevel'' (Session_User session @ ''.*'') params
             else params)"

definition ListDatasets ::
  "env \<Rightarrow> Session \<Rightarrow> DatasetFilter option \<Rightarrow> world \<Rightarrow> (error + DatasetList) \<times> world" where
  "ListDatasets env session filter' w =
     (let params = ListDatasets_params session filter';
          apiURL = GetBaseURL session @ DatasetsEndpoint;
          apiURL = (if length params > 0 then apiURL @ ''?'' @ Encode params else apiURL)
      in case NewRequest env ''GET'' apiURL None of
           Inl err \<Rightarrow> (Inl (Wrap ''failed to create request: '' (Err err)), w)
         | Inr req \<Rightarrow>
             (let req = add_session_headers session req;
                  req = (case filter' of
                           None \<Rightarrow> set_header ''X-IBM-Max-Items'' ''0'' req
                         | Some f \<Rightarrow>
                             if Limit f > 0 then set_header ''X-IBM-Max-Items'' (Itoa (Limit f)) req
                             else set_header ''X-IBM-Max-Items'' ''0'' req);
                  req = set_header ''X-IBM-Attributes'' ''base'' req
              in case Do env req w of
                   (Inl err, w') \<Rightarrow> (Inl (Wrap ''failed to make request: '' (Err err)), w')
                 | (Inr resp, w') \<Rightarrow>
                     if StatusCode resp \<noteq> 200 then (Inl (api_error resp), w')
                     else (case ReadAll resp of
                             (bodyBytes, Some err) \<Rightarrow>
                               (Inl (Wrap ''failed to read response: '' (Err err)), w')
                           | (bodyBytes, None) \<Rightarrow>
                               (case Unmarshal_DatasetList env bodyBytes of
                                  Inl err \<Rightarrow> (Inl (Wrap ''failed to decode response: '' (Err err)), w')
                                | Inr datasetList \<Rightarrow> (Inr datasetList, w')))))"

text \<open>\<open>CopyDataset\<close>; \<open>None\<close> is the \<open>nil\<close> error.\<close>

definition CopyDataset :: "env \<Rightarrow> Session \<Rightarrow> string \<Rightarrow> string \<Rightarrow> world \<Rightarrow> error option \<times> world" where
  "CopyDataset env session sourceName targetName w =
     (let apiURL = GetBaseURL session @ DatasetByNameEndpoint (PathEscape targetName);
          requestBody = [(''request'', JString ''copy''),
                         (''from-dataset'', Marshal_strings [(''dsn'', sourceName)])];
          jsonBody = Marshal_map requestBody
      in case NewRequest env ''PUT'' apiURL (Some jsonBody) of
           Inl err \<Rightarrow> (Some (Wrap ''failed to create request: '' (Err err)), w)
         | Inr req \<Rightarrow>
             (let req = add_session_headers session req;
                  req = set_header ''Content-Type'' ''application/json'' req
              in case Do env req w of
                   (Inl err, w') \<Rightarrow> (Some (Wrap ''failed to make request: '' (Err err)), w')
                 | (Inr resp, w') \<Rightarrow>
                     if StatusCode resp \<noteq> 201 \<and> StatusCode resp \<noteq> 200 then (Some (api_error resp), w')
                     else (None, w')))"

section \<open>Scenarios\<close>

text \<open>
  Concrete surroundings on which the theorems are run: a session as \<open>NewSession\<close> makes
  it, a fresh world, and a server in the manner of the mock server of the integration
  test, which sends the given responses in turn and then refuses the connection.
  Every round trip takes the given time, and \<open>http.NewRequest\<close> accepts every URL. The
  documents that the server's decoders know are those of the tables.
\<close>

definition demo_profile :: ZOSMFProfile where
  "demo_profile =
     \<lparr>Name = ''demo'', Host = ''zos.example.com'', Port = 10443, User = ''IBMUSER'',
      Password = ''secret'', Protocol = ''https'', BasePath = ''/zosmf'',
      RejectUnauthorized = True, ResponseTimeout = 30\<rparr>"

definition demo_session :: Session where
  "demo_session =
     \<lparr>Profile = demo_profile, Session_Host = ''zos.example.com'', Session_Port = 10443,
      Session_User = ''IBMUSER'', Session_Password = ''secret'',
      BaseURL = ''https://zos.example.com:10443/zosmf'',
      HTTPClient = \<lparr>InsecureSkipVerify = False, Timeout = 30 * 1000000000\<rparr>,
      Headers = Some [(''Content-Type'', ''application/json''), (''Accept'', ''application/json'')]\<rparr>"

definition fresh :: world where
  "fresh = \<lparr>events = [], clock = 0\<rparr>"

definition ok :: "string \<Rightarrow> Response" where
  "ok text = \<lparr>StatusCode = 200, Body = text, BodyError = None\<rparr>"

definition failed :: "int \<Rightarrow> string \<Rightarrow> Response" where
  "failed code text = \<lparr>StatusCode = code, Body = text, BodyError = None\<rparr>"

definition json_texts :: "(string \<times> json) list" where
  \<open>json_texts =
     [(''{"jobs":[]}'', JObject [(''jobs'', JArray [])]),
      (''[]'', JArray []),
      (''{}'', JObject [])]\<close>

definition job_documents :: "(string \<times> Job) list" where
  \<open>job_documents =
     [(''{"status":"ACTIVE"}'', \<lparr>JobID = [], JobName = [], Owner = [], Status = ''ACTIVE''\<rparr>),
      (''{"status":"OUTPUT"}'', \<lparr>JobID = [], JobName = [], Owner = [], Status = ''OUTPUT''\<rparr>)]\<close>

definition spool_documents :: "(string \<times> SpoolFile list) list" where
  \<open>spool_documents =
     [(''[{"id":1,"ddname":"JESMSGLG"},{"id":2,"ddname":"JESJCL"}]'',
       [\<lparr>ID = 1, DDName = ''JESMSGLG''\<rparr>, \<lparr>ID = 2, DDName = ''JESJCL''\<rparr>])]\<close>

definition submit_documents :: "(string \<times> SubmitJobResponse) list" where
  \<open>submit_documents =
     [(''{"jobid":"JOB00001","jobname":"INTEGJOB"}'',
       \<lparr>Submitted_JobID = ''JOB00001'', Submitted_JobName = ''INTEGJOB''\<rparr>)]\<close>

definition from_table :: "(string \<times> 'a) list \<Rightarrow> string \<Rightarrow> string + 'a" where
  "from_table table text =
     (case map_of table text of None \<Rightarrow> Inl ''unexpected end of JSON input'' | Some v \<Rightarrow> Inr v)"

text \<open>The jobs of the scenarios are decoded from an object by its \<open>status\<close> member.\<close>

fun demo_Job :: "json \<Rightarrow> Job option" where
  "demo_Job (JObject members) =
     (case map_of members ''status'' of
        None \<Rightarrow> None
      | Some v \<Rightarrow> (case v of
                     JString s \<Rightarrow> Some \<lparr>JobID = [], JobName = [], Owner = [], Status = s\<rparr>
                   | _ \<Rightarrow> None))"
| "demo_Job _ = None"

definition scripted :: "Response list \<Rightarrow> nat \<Rightarrow> env" where
  "scripted responses rtt =
     \<lparr>NewRequest_error = (\<lambda>method url. None),
      RoundTrip = (\<lambda>k req. if k < length responses then Inr (responses ! k) else Inl ''connection refused''),
      RoundTripTime = (\<lambda>k. rtt),
      Unmarshal = map_of json_texts,
      Job_of_json = demo_Job,
      Decode_Job = (\<lambda>resp. from_table job_documents (Body resp)),
      Decode_SpoolFiles = (\<lambda>resp. from_table spool_documents (Body resp)),
      Decode_SubmitJobResponse = (\<lambda>resp. from_table submit_documents (Body resp)),
      Unmarshal_DatasetList = (\<lambda>text. Inl ''unexpected end of JSON input'')\<rparr>"

section \<open>Notions of the specification\<close>

text \<open>The requests that a call adds to those sent before it.\<close>

definition issued :: "world \<Rightarrow> world \<Rightarrow> Request list" where
  "issued w w' = drop (length (requests w)) (requests w')"

text \<open>The value of the row limit header as the specification words it.\<close>

definition max_items :: "DatasetFilter option \<Rightarrow> string" where
  "max_items filter' =
     (case filter' of None \<Rightarrow> ''0'' | Some f \<Rightarrow> if Limit f > 0 then Itoa (Limit f) else ''0'')"

text \<open>
  The outcome of fetching the content of each spool file in turn, and the entries that
  the outcomes without an error give, in the order of the files.
\<close>

fun fetch_all ::
  "env \<Rightarrow> Session \<Rightarrow> string \<Rightarrow> SpoolFile list \<Rightarrow> world \<Rightarrow> (SpoolFile \<times> (error + string)) list" where
  "fetch_all env session correlator [] w = []"
| "fetch_all env session correlator (spoolFile # rest) w =
     (spoolFile, fst (GetSpoolFileContent env session correlator (ID spoolFile) w))
       # fetch_all env session correlator rest
           (snd (GetSpoolFileContent env session correlator (ID spoolFile) w))"

fun kept :: "(SpoolFile \<times> (error + string)) list \<Rightarrow> (string \<times> string) list" where
  "kept [] = []"
| "kept ((spoolFile, Inl err) # rest) = kept rest"
| "kept ((spoolFile, Inr content) # rest) = (DDName spoolFile, content) # kept rest"

text \<open>The sleeps that a world has taken, in order.\<close>

fun slept_time :: "event \<Rightarrow> int list" where
  "slept_time (Sent r) = []"
| "slept_time (Slept d) = [d]"

definition sleeps :: "world \<Rightarrow> int list" where
  "sleeps w = concat (map slept_time (events w))"

text \<open>
  One round of the wait: a status poll and the sleep after it; and the world after a
  number of rounds.
\<close>

definition poll_round :: "env \<Rightarrow> Session \<Rightarrow> string \<Rightarrow> int \<Rightarrow> world \<Rightarrow> world" where
  "poll_round env session correlator pollInterval w =
     Sleep pollInterval (snd (GetJobStatus env session correlator w))"

fun rounds :: "env \<Rightarrow> Session \<Rightarrow> string \<Rightarrow> int \<Rightarrow> nat \<Rightarrow> world \<Rightarrow> world" where
  "rounds env session correlator pollInterval 0 w = w"
| "rounds env session correlator pollInterval (Suc n) w =
     rounds env session correlator pollInterval n (poll_round env session correlator pollInterval w)"

section \<open>Properties of the string functions\<close>

lemma HasPrefix_iff: "HasPrefix s p \<longleftrightarrow> (\<exists>post. s = p @ post)"
proof
  assume "HasPrefix s p"
  then have "s = p @ drop (length p) s"
    by (metis HasPrefix_def append_take_drop_id)
  then show "\<exists>post. s = p @ post" ..
next
  assume "\<exists>post. s = p @ post"
  then show "HasPrefix s p"
    by (auto simp: HasPrefix_def)
qed

lemma HasSuffix_iff: "HasSuffix s p \<longleftrightarrow> (\<exists>pre. s = pre @ p)"
proof
  assume "HasSuffix s p"
  then have "s = take (length s - length p) s @ p"
    by (metis HasSuffix_def append_take_drop_id)
  then show "\<exists>pre. s = pre @ p" ..
next
  assume "\<exists>pre. s = pre @ p"
  then show "HasSuffix s p"
    by (auto simp: HasSuffix_def)
qed

lemma Contains_iff: "Contains s sub \<longleftrightarrow> (\<exists>pre post. s = pre @ sub @ post)"
proof (induction s)
  case Nil
  then show ?case by auto
next
  case (Cons c cs)
  show ?case
  proof
    assume "Contains (c # cs) sub"
    then consider "HasPrefix (c # cs) sub" | "Contains cs sub" by auto
    then show "\<exists>pre post. c # cs = pre @ sub @ post"
    proof cases
      case 1
      then obtain post where "c # cs = sub @ post" by (auto simp: HasPrefix_iff)
      then have "c # cs = [] @ sub @ post" by simp
      then show ?thesis by blast
    next
      case 2
      then obtain pre post where "cs = pre @ sub @ post" using Cons.IH by auto
      then have "c # cs = (c # pre) @ sub @ post" by simp
      then show ?thesis by blast
    qed
  next
    assume "\<exists>pre post. c # cs = pre @ sub @ post"
    then obtain pre post where eq: "c # cs = pre @ sub @ post" by blast
    show "Contains (c # cs) sub"
    proof (cases pre)
      case Nil
      with eq have "HasPrefix (c # cs) sub" by (auto simp: HasPrefix_iff)
      then show ?thesis by simp
    next
      case (Cons a pre')
      with eq have "cs = pre' @ sub @ post" by simp
      then have "Contains cs sub" using Cons.IH by blast
      then show ?thesis by simp
    qed
  qed
qed

lemma Contains_pair_doubled: "Contains s [c, c] \<longleftrightarrow> doubled c s"
proof
  assume "Contains s [c, c]"
  then obtain pre post where eq: "s = pre @ [c, c] @ post" by (auto simp: Contains_iff)
  have "Suc (length pre) < length s" using eq by simp
  moreover have "s ! length pre = c" using eq by simp
  moreover have "s ! Suc (length pre) = c" using eq by (simp add: nth_append)
  ultimately show "doubled c s" unfolding doubled_def by blast
next
  assume "doubled c s"
  then obtain i where i: "Suc i < length s" "s ! i = c" "s ! Suc i = c"
    unfolding doubled_def by blast
  have "s = take i s @ drop i s" by simp
  also have "drop i s = s ! i # drop (Suc i) s"
    using i(1) by (simp add: Cons_nth_drop_Suc)
  also have "drop (Suc i) s = s ! Suc i # drop (Suc (Suc i)) s"
    using i(1) by (simp add: Cons_nth_drop_Suc)
  finally have "s = take i s @ [c, c] @ drop (Suc (Suc i)) s"
    using i(2,3) by simp
  then show "Contains s [c, c]" unfolding Contains_iff by blast
qed

lemma MatchString_Many: "MatchString [Many cl] s \<longleftrightarrow> list_all (in_class cl) s"
  by (induction s) auto

lemma MatchString_One_Many:
  "MatchString [One a, Many b] s \<longleftrightarrow> (s \<noteq> [] \<and> in_class a (hd s) \<and> list_all (in_class b) (tl s))"
  by (cases s) (auto simp: MatchString_Many)

lemma MatchString_validPattern:
  "MatchString validPattern s \<longleftrightarrow> (s \<noteq> [] \<and> first_char_ok (hd s) \<and> (\<forall>c\<in>set (tl s). later_char_ok c))"
  unfolding validPattern_def MatchString_One_Many
  by (auto simp: first_char_ok_def later_char_ok_def list_all_iff)

lemma HasPrefix_single: "HasPrefix s [c] \<longleftrightarrow> (s \<noteq> [] \<and> hd s = c)"
  by (cases s) (auto simp: HasPrefix_def)

lemma HasSuffix_single: "HasSuffix s [c] \<longleftrightarrow> (s \<noteq> [] \<and> last s = c)"
proof (cases s rule: rev_cases)
  case Nil
  then show ?thesis by (simp add: HasSuffix_def)
next
  case (snoc ys y)
  then show ?thesis by (auto simp: HasSuffix_iff)
qed

section \<open>Dataset name validation\<close>

text \<open>
  C3. \<open>ValidateDatasetName\<close> returns no error exactly for the names that are not empty,
  have at most 44 characters, start with one of A-Z, @, #, $, go on with characters of
  A-Z, 0-9, @, #, $, -, ., have no two periods and no two hyphens in a row and neither
  start nor end with a period. For every other name it returns an error, a plain
  \<open>fmt.Errorf\<close> value (the source has no error types), whose message is one of the six
  reasons of the source and so is not empty. The function takes no session and no
  world: it sends nothing.
\<close>

theorem ValidateDatasetName_iff:
  "(ValidateDatasetName name = None \<longleftrightarrow>
      name \<noteq> [] \<and> length name \<le> 44 \<and> first_char_ok (hd name) \<and>
      (\<forall>c\<in>set (tl name). later_char_ok c) \<and>
      \<not> doubled (CHR ''.'') name \<and> \<not> doubled (CHR ''-'') name \<and>
      hd name \<noteq> CHR ''.'' \<and> last name \<noteq> CHR ''.'') \<and>
   (ValidateDatasetName name \<noteq> None \<longrightarrow>
      (\<exists>err. ValidateDatasetName name = Some err \<and> Error err \<noteq> [] \<and>
         Error err \<in> {''dataset name cannot be empty'',
                      ''dataset name cannot exceed 44 characters'',
                      ''dataset name contains invalid characters'',
                      ''dataset name cannot contain consecutive periods'',
                      ''dataset name cannot start or end with a period'',
                      ''dataset name cannot contain consecutive hyphens''}))"
proof -
  have dots: "Contains name ''..'' \<longleftrightarrow> doubled (CHR ''.'') name"
    by (rule Contains_pair_doubled)
  have hyphens: "Contains name ''--'' \<longleftrightarrow> doubled (CHR ''-'') name"
    by (rule Contains_pair_doubled)
  have accepted: "ValidateDatasetName name = None \<longleftrightarrow>
      name \<noteq> [] \<and> length name \<le> 44 \<and> first_char_ok (hd name) \<and>
      (\<forall>c\<in>set (tl name). later_char_ok c) \<and>
      \<not> doubled (CHR ''.'') name \<and> \<not> doubled (CHR ''-'') name \<and>
      hd name \<noteq> CHR ''.'' \<and> last name \<noteq> CHR ''.''"
    unfolding ValidateDatasetName_def dots hyphens MatchString_validPattern
      HasPrefix_single HasSuffix_single
    by auto
  have rejected: "ValidateDatasetName name \<noteq> None \<longrightarrow>
      (\<exists>err. ValidateDatasetName name = Some err \<and> Error err \<noteq> [] \<and>
         Error err \<in> {''dataset name cannot be empty'',
                      ''dataset name cannot exceed 44 characters'',
                      ''dataset name contains invalid characters'',
                      ''dataset name cannot contain consecutive periods'',
                      ''dataset name cannot start or end with a period'',
                      ''dataset name cannot contain consecutive hyphens''})"
    unfolding ValidateDatasetName_def by simp
  from accepted rejected show ?thesis by blast
qed

theorem ValidateDatasetName_witness:
  "ValidateDatasetName ''SYS1.PROC-LIB.A#1'' = None \<and>
   ValidateDatasetName ''USER..DATA'' = Some (Err ''dataset name cannot contain consecutive periods'')"
proof -
  have "\<not> doubled (CHR ''.'') ''SYS1.PROC-LIB.A#1''"
    unfolding Contains_pair_doubled [symmetric] by (simp add: HasPrefix_def)
  moreover have "\<not> doubled (CHR ''-'') ''SYS1.PROC-LIB.A#1''"
    unfolding Contains_pair_doubled [symmetric] by (simp add: HasPrefix_def)
  ultimately have "ValidateDatasetName ''SYS1.PROC-LIB.A#1'' = None"
    using ValidateDatasetName_iff [of "''SYS1.PROC-LIB.A#1''"]
    by (simp add: first_char_ok_def later_char_ok_def)
  moreover have "ValidateDatasetName ''USER..DATA'' =
      Some (Err ''dataset name cannot contain consecutive periods'')"
    by (simp add: ValidateDatasetName_def validPattern_def HasPrefix_def)
  ultimately show ?thesis by simp
qed

section \<open>Job completion\<close>

lemma upper_lower_byte: "upper_byte (lower_byte c) = upper_byte c"
  unfolding upper_byte_def lower_byte_def lower_letters_def upper_letters_def
  by simp

lemma upper_upper_byte: "upper_byte (upper_byte c) = upper_byte c"
  unfolding upper_byte_def lower_letters_def upper_letters_def
  by simp

lemma ToUpper_ToLower: "ToUpper (ToLower s) = ToUpper s"
  by (simp add: ToUpper_def ToLower_def upper_lower_byte)

lemma ToUpper_ToUpper: "ToUpper (ToUpper s) = ToUpper s"
  by (simp add: ToUpper_def upper_upper_byte)

lemma contains_any_iff:
  "contains_any s cs \<longleftrightarrow> (\<exists>c\<in>set cs. \<exists>pre post. s = pre @ c @ post)"
  by (induction cs) (auto simp: Contains_iff)

text \<open>
  C8. \<open>isJobComplete\<close> holds of a status exactly when the status in upper case has one
  of OUTPUT, CC 0000, CC 0001, CC 0002, CC 0003, CC 0004, ABEND as a substring, and the
  case of the status does not matter: the status in lower case and the status in upper
  case get the answer of the status itself.
\<close>

theorem isJobComplete_iff:
  "(isJobComplete status \<longleftrightarrow>
      (\<exists>c\<in>{''OUTPUT'', ''CC 0000'', ''CC 0001'', ''CC 0002'', ''CC 0003'', ''CC 0004'', ''ABEND''}.
         \<exists>pre post. ToUpper status = pre @ c @ post)) \<and>
   isJobComplete (ToLower status) = isJobComplete status \<and>
   isJobComplete (ToUpper status) = isJobComplete status"
  unfolding isJobComplete_def contains_any_iff ToUpper_ToLower ToUpper_ToUpper
  by (simp add: completedStatuses_def)

theorem isJobComplete_witness:
  "isJobComplete ''Job ended: cc 0004'' \<and> \<not> isJobComplete ''ACTIVE''"
proof -
  have "ToUpper ''Job ended: cc 0004'' = ''JOB ENDED: '' @ ''CC 0004'' @ []"
    by (simp add: ToUpper_def upper_byte_def lower_letters_def upper_letters_def)
  then have "isJobComplete ''Job ended: cc 0004''"
    using isJobComplete_iff [of "''Job ended: cc 0004''"] by blast
  moreover have "\<not> isJobComplete ''ACTIVE''"
    by (simp add: isJobComplete_def completedStatuses_def ToUpper_def upper_byte_def
        lower_letters_def upper_letters_def HasPrefix_def)
  ultimately show ?thesis by simp
qed

section \<open>Sessions\<close>

text \<open>
  C1. \<open>NewSession\<close> always returns a session, and its base URL is the scheme, \<open>://\<close>,
  the host, then \<open>:\<close> and the port in decimal exactly when the port is none of 0, 80
  and 443, then the base path as it is. The scheme is \<open>http\<close> when the port is 80 or
  8080, and otherwise the profile's protocol, or \<open>https\<close> when the profile has none.
\<close>

theorem NewSession_BaseURL:
  "\<exists>s. NewSession p = Inr s \<and>
     BaseURL s =
       (if Port p = 80 \<or> Port p = 8080 then ''http''
        else if Protocol p = [] then ''https'' else Protocol p)
       @ ''://'' @ Host p
       @ (if Port p \<noteq> 0 \<and> Port p \<noteq> 80 \<and> Port p \<noteq> 443 then '':'' @ Itoa (Port p) else [])
       @ BasePath p"
  by (simp add: NewSession_def Let_def)

theorem NewSession_BaseURL_witness:
  "\<exists>s. NewSession \<lparr>Name = [], Host = ''localhost'', Port = 8080, User = ''user'',
         Password = ''pass'', Protocol = [], BasePath = ''/api/v1'', RejectUnauthorized = False,
         ResponseTimeout = 0\<rparr> = Inr s \<and> BaseURL s = ''http://localhost:8080/api/v1''"
  using NewSession_BaseURL [of "\<lparr>Name = [], Host = ''localhost'', Port = 8080, User = ''user'',
         Password = ''pass'', Protocol = [], BasePath = ''/api/v1'', RejectUnauthorized = False,
         ResponseTimeout = 0\<rparr>"]
  by (simp add: Itoa_def digit_char_def)

lemma AddHeader_frame:
  "AddHeader key val s = Inr s' \<Longrightarrow> \<exists>h. s' = s\<lparr>Headers := h\<rparr>"
  by (auto simp: AddHeader_def split: option.splits)

lemma RemoveHeader_frame: "\<exists>h. RemoveHeader key s = s\<lparr>Headers := h\<rparr>"
proof (cases "Headers s")
  case None
  then have "RemoveHeader key s = s\<lparr>Headers := None\<rparr>"
    by (simp add: RemoveHeader_def)
  then show ?thesis ..
next
  case (Some m)
  then have "RemoveHeader key s = s\<lparr>Headers := Some (AList.delete key m)\<rparr>"
    by (simp add: RemoveHeader_def)
  then show ?thesis ..
qed

lemma header_calls_frame: "\<exists>h. fst (header_calls calls s) = s\<lparr>Headers := h\<rparr>"
proof (induction calls s rule: header_calls.induct)
  case (1 s)
  have "fst (header_calls [] s) = s\<lparr>Headers := Headers s\<rparr>" by simp
  then show ?case ..
next
  case (2 key val rest s)
  show ?case
  proof (cases "AddHeader key val s")
    case (Inl panic)
    then have "fst (header_calls (Add key val # rest) s) = s\<lparr>Headers := Headers s\<rparr>" by simp
    then show ?thesis ..
  next
    case (Inr s')
    obtain h where h: "fst (header_calls rest s') = s'\<lparr>Headers := h\<rparr>"
      using 2 [OF Inr] by blast
    obtain h' where h': "s' = s\<lparr>Headers := h'\<rparr>"
      using AddHeader_frame [OF Inr] by blast
    have "fst (header_calls (Add key val # rest) s) = s\<lparr>Headers := h\<rparr>"
      using Inr h by (simp add: h')
    then show ?thesis ..
  qed
next
  case (3 key rest s)
  obtain h where h: "fst (header_calls rest (RemoveHeader key s)) = (RemoveHeader key s)\<lparr>Headers := h\<rparr>"
    using 3 by blast
  obtain h' where h': "RemoveHeader key s = s\<lparr>Headers := h'\<rparr>"
    using RemoveHeader_frame by blast
  have "fst (header_calls (Remove key # rest) s) = s\<lparr>Headers := h\<rparr>"
    using h by (simp add: h')
  then show ?case ..
qed

text \<open>
  C9. Whatever sequence of \<open>AddHeader\<close> and \<open>RemoveHeader\<close> calls runs on a session,
  the session it leaves differs from the first one in \<open>Headers\<close> at most: the base URL,
  the client, the profile and the copied connection fields are the same.
\<close>

theorem header_calls_unchanged:
  "BaseURL (fst (header_calls calls s)) = BaseURL s \<and>
   HTTPClient (fst (header_calls calls s)) = HTTPClient s \<and>
   Profile (fst (header_calls calls s)) = Profile s \<and>
   fst (header_calls calls s) = s\<lparr>Headers := Headers (fst (header_calls calls s))\<rparr>"
proof -
  obtain h where "fst (header_calls calls s) = s\<lparr>Headers := h\<rparr>"
    using header_calls_frame by blast
  then show ?thesis by simp
qed

section \<open>Requests of the operations\<close>

lemma requests_Do: "requests (snd (Do env req w)) = requests w @ [req]"
  by (simp add: Do_def requests_def Let_def)

lemma fst_Do: "fst (Do env req w) = RoundTrip env (length (requests w)) req"
  by (simp add: Do_def Let_def)

lemma requests_Sleep: "requests (Sleep d w) = requests w"
  by (simp add: Sleep_def requests_def)

lemma scripted_accepts: "NewRequest_error (scripted responses rtt) method url = None"
  by (simp add: scripted_def)

lemma requests_fresh: "requests fresh = []"
  by (simp add: requests_def fresh_def)

lemma issued_append: "requests w' = requests w @ rs \<Longrightarrow> issued w w' = rs"
  by (simp add: issued_def)

lemma single_request:
  assumes "length rs = 1" and "\<forall>r\<in>set rs. f r = v"
  shows "map f rs = [v]"
proof -
  from assms(1) obtain r where "rs = [r]"
    by (cases rs) auto
  with assms(2) show ?thesis by simp
qed

section \<open>Copying a dataset\<close>

lemma Marshal_copy:
  "Marshal_map [(''request'', JString ''copy''), (''from-dataset'', Marshal_strings [(''dsn'', sourceName)])] =
   JObject [(''from-dataset'', JObject [(''dsn'', JString sourceName)]), (''request'', JString ''copy'')]"
  by (simp add: Marshal_map_def Marshal_strings_def)

text \<open>
  C5. The requests that \<open>CopyDataset\<close> adds to those sent before are at most one, and
  exactly one when \<open>http.NewRequest\<close> accepts the URL. That request is a PUT, not a
  POST; its URL is the base URL, \<open>/restfiles/ds/\<close> and the escaped target name, and the
  source name is in the body only: the body is the object with \<open>request\<close> set to
  \<open>copy\<close> and \<open>from-dataset\<close> set to the object whose \<open>dsn\<close> is the source name.
\<close>

theorem CopyDataset_puts_to_target:
  "requests (snd (CopyDataset env session sourceName targetName w)) =
     requests w @ issued w (snd (CopyDataset env session sourceName targetName w)) \<and>
   length (issued w (snd (CopyDataset env session sourceName targetName w))) \<le> 1 \<and>
   (NewRequest_error env ''PUT'' (BaseURL session @ ''/restfiles/ds/'' @ PathEscape targetName) = None
      \<longrightarrow> length (issued w (snd (CopyDataset env session sourceName targetName w))) = 1) \<and>
   (\<forall>r\<in>set (issued w (snd (CopyDataset env session sourceName targetName w))).
      Method r = ''PUT'' \<and> Method r \<noteq> ''POST'' \<and>
      URL r = BaseURL session @ ''/restfiles/ds/'' @ PathEscape targetName \<and>
      ReqBody r = Some (JObject [(''from-dataset'', JObject [(''dsn'', JString sourceName)]),
                                 (''request'', JString ''copy'')]))"
proof (cases "NewRequest_error env ''PUT'' (BaseURL session @ ''/restfiles/ds/'' @ PathEscape targetName)")
  case (Some err)
  then have "snd (CopyDataset env session sourceName targetName w) = w"
    by (simp add: CopyDataset_def NewRequest_def GetBaseURL_def DatasetByNameEndpoint_def)
  then have sent: "requests (snd (CopyDataset env session sourceName targetName w)) = requests w @ []"
    by simp
  have "issued w (snd (CopyDataset env session sourceName targetName w)) = []"
    using sent by (rule issued_append)
  then show ?thesis using Some sent by simp
next
  case None
  define req where "req = set_header ''Content-Type'' ''application/json''
      (add_session_headers session
        \<lparr>Method = ''PUT'', URL = BaseURL session @ ''/restfiles/ds/'' @ PathEscape targetName,
         ReqHeader = [],
         ReqBody = Some (JObject [(''from-dataset'', JObject [(''dsn'', JString sourceName)]),
                                  (''request'', JString ''copy'')])\<rparr>)"
  have "snd (CopyDataset env session sourceName targetName w) = snd (Do env req w)"
    using None
    by (simp add: CopyDataset_def NewRequest_def GetBaseURL_def DatasetByNameEndpoint_def Marshal_copy
        req_def Let_def split: prod.splits sum.splits)
  then have sent: "requests (snd (CopyDataset env session sourceName targetName w)) = requests w @ [req]"
    by (simp add: requests_Do)
  have only: "issued w (snd (CopyDataset env session sourceName targetName w)) = [req]"
    using sent by (rule issued_append)
  have "Method req = ''PUT''" "URL req = BaseURL session @ ''/restfiles/ds/'' @ PathEscape targetName"
    "ReqBody req = Some (JObject [(''from-dataset'', JObject [(''dsn'', JString sourceName)]),
                                      (''request'', JString ''copy'')])"
    by (simp_all add: req_def set_header_def add_session_headers_def split: option.splits)
  then show ?thesis using sent by (simp add: only)
qed

theorem CopyDataset_witness:
  "map Method (issued fresh (snd (CopyDataset (scripted [failed 201 []] 0) demo_session ''SRC'' ''DST'' fresh)))
     = [''PUT''] \<and>
   map URL (issued fresh (snd (CopyDataset (scripted [failed 201 []] 0) demo_session ''SRC'' ''DST'' fresh)))
     = [''https://zos.example.com:10443/zosmf/restfiles/ds/DST''] \<and>
   map ReqBody (issued fresh (snd (CopyDataset (scripted [failed 201 []] 0) demo_session ''SRC'' ''DST'' fresh)))
     = [Some (JObject [(''from-dataset'', JObject [(''dsn'', JString ''SRC'')]), (''request'', JString ''copy'')])]"
proof -
  note spec = CopyDataset_puts_to_target [of "scripted [failed 201 []] 0" demo_session "''SRC''" "''DST''" fresh]
  have one: "length (issued fresh (snd (CopyDataset (scripted [failed 201 []] 0) demo_session ''SRC'' ''DST'' fresh))) = 1"
    using spec [THEN conjunct2, THEN conjunct2, THEN conjunct1] by (simp only: scripted_accepts)
  note each = spec [THEN conjunct2, THEN conjunct2, THEN conjunct2]
  have url: "BaseURL demo_session @ ''/restfiles/ds/'' @ PathEscape ''DST'' =
      ''https://zos.example.com:10443/zosmf/restfiles/ds/DST''"
    by (simp add: PathEscape_def unreserved_def demo_session_def)
  have "map Method (issued fresh (snd (CopyDataset (scripted [failed 201 []] 0) demo_session ''SRC'' ''DST'' fresh)))
     = [''PUT'']"
    using each by (intro single_request [OF one]) blast
  moreover have "map URL (issued fresh (snd (CopyDataset (scripted [failed 201 []] 0) demo_session ''SRC'' ''DST'' fresh)))
     = [''https://zos.example.com:10443/zosmf/restfiles/ds/DST'']"
    using each unfolding url by (intro single_request [OF one]) blast
  moreover have "map ReqBody (issued fresh (snd (CopyDataset (scripted [failed 201 []] 0) demo_session ''SRC'' ''DST'' fresh)))
     = [Some (JObject [(''from-dataset'', JObject [(''dsn'', JString ''SRC'')]), (''request'', JString ''copy'')])]"
    using each by (intro single_request [OF one]) blast
  ultimately show ?thesis by blast
qed

section \<open>Listing datasets\<close>

lemma canonical_max_items: "CanonicalMIMEHeaderKey ''X-IBM-Max-Items'' = ''X-Ibm-Max-Items''"
  by (simp add: CanonicalMIMEHeaderKey_def token_byte_def upper_byte_def lower_byte_def
      lower_letters_def upper_letters_def Let_def)

lemma canonical_attributes: "CanonicalMIMEHeaderKey ''X-IBM-Attributes'' = ''X-Ibm-Attributes''"
  by (simp add: CanonicalMIMEHeaderKey_def token_byte_def upper_byte_def lower_byte_def
      lower_letters_def upper_letters_def Let_def)

lemma Header_Get_Set: "Header_Get (Header_Set key val h) key = Some val"
  by (simp add: Header_Get_def Header_Set_def update_conv')

lemma Header_Get_Set_other:
  "CanonicalMIMEHeaderKey key' \<noteq> CanonicalMIMEHeaderKey key \<Longrightarrow>
   Header_Get (Header_Set key' val h) key = Header_Get h key"
  by (simp add: Header_Get_def Header_Set_def update_conv')

lemma max_items_kept:
  "Header_Get (ReqHeader (set_header ''X-IBM-Attributes'' ''base'' (set_header ''X-IBM-Max-Items'' v req)))
     ''X-IBM-Max-Items'' = Some v"
  by (simp add: set_header_def Header_Get_Set Header_Get_Set_other canonical_max_items canonical_attributes)

lemma ListDatasets_params_default:
  assumes "case filter' of None \<Rightarrow> True | Some f \<Rightarrow> Name_Filter f = [] \<and> Volume_Filter f = []"
  shows "ListDatasets_params session filter' =
     (case filter' of
        None \<Rightarrow> [(''dslevel'', Session_User session @ ''.*'')]
      | Some f \<Rightarrow> (if Owner_Filter f \<noteq> [] then [(''start'', Owner_Filter f)] else [])
                    @ [(''dslevel'', Session_User session @ ''.*'')])"
  using assms
  by (auto simp: ListDatasets_params_def Values_Set_def split: option.splits)

lemma ListDatasets_params_keys:
  "fst ` set (ListDatasets_params session filter') \<subseteq> {''dslevel'', ''volser'', ''start''}"
  by (auto simp: ListDatasets_params_def Values_Set_def Let_def split: option.splits if_splits)

lemma ListDatasets_params_Limit:
  "ListDatasets_params session (map_option (\<lambda>f. f\<lparr>Limit := n\<rparr>) filter') = ListDatasets_params session filter'"
  by (cases filter') (simp_all add: ListDatasets_params_def)

lemma ListDatasets_params_nonempty: "ListDatasets_params session filter' \<noteq> []"
  by (auto simp: ListDatasets_params_def Values_Set_def Let_def split: option.splits if_splits)

lemma Encode_default:
  "Encode ((if owner \<noteq> [] then [(''start'', owner)] else []) @ [(''dslevel'', pattern)]) =
     ''dslevel='' @ QueryEscape pattern @ (if owner \<noteq> [] then ''&start='' @ QueryEscape owner else [])"
  by (simp add: Encode_def QueryEscape_def unreserved_def)

lemma ListDatasets_default_query:
  assumes "case filter' of None \<Rightarrow> True | Some f \<Rightarrow> Name_Filter f = [] \<and> Volume_Filter f = []"
  shows "map_of (ListDatasets_params session filter') ''dslevel'' = Some (Session_User session @ ''.*'') \<and>
      Encode (ListDatasets_params session filter') =
        ''dslevel='' @ QueryEscape (Session_User session @ ''.*'')
          @ (case filter' of
               None \<Rightarrow> []
             | Some f \<Rightarrow> if Owner_Filter f \<noteq> [] then ''&start='' @ QueryEscape (Owner_Filter f) else [])"
proof (cases filter')
  case None
  then show ?thesis
    using ListDatasets_params_default [OF assms, of session]
      Encode_default [of "[]" "Session_User session @ ''.*''"]
    by simp
next
  case (Some f)
  then show ?thesis
    using ListDatasets_params_default [OF assms, of session]
      Encode_default [of "Owner_Filter f" "Session_User session @ ''.*''"]
    by simp
qed

lemma ListDatasets_requests:
  "requests (snd (ListDatasets env session filter' w)) =
     requests w @ issued w (snd (ListDatasets env session filter' w)) \<and>
   length (issued w (snd (ListDatasets env session filter' w))) \<le> 1 \<and>
   (NewRequest_error env ''GET''
      (BaseURL session @ ''/restfiles/ds?'' @ Encode (ListDatasets_params session filter')) = None
    \<longrightarrow> length (issued w (snd (ListDatasets env session filter' w))) = 1) \<and>
   (\<forall>r\<in>set (issued w (snd (ListDatasets env session filter' w))).
      URL r = BaseURL session @ ''/restfiles/ds?'' @ Encode (ListDatasets_params session filter') \<and>
      Header_Get (ReqHeader r) ''X-IBM-Max-Items'' = Some (max_items filter'))"
proof (cases "NewRequest_error env ''GET''
           (BaseURL session @ ''/restfiles/ds?'' @ Encode (ListDatasets_params session filter'))")
  case (Some err)
  then have "snd (ListDatasets env session filter' w) = w"
    by (simp add: ListDatasets_def NewRequest_def GetBaseURL_def DatasetsEndpoint_def
        ListDatasets_params_nonempty)
  then have sent: "requests (snd (ListDatasets env session filter' w)) = requests w @ []"
    by simp
  have "issued w (snd (ListDatasets env session filter' w)) = []"
    using sent by (rule issued_append)
  then show ?thesis using Some sent by simp
next
  case None
  define req where "req = set_header ''X-IBM-Attributes'' ''base''
      (set_header ''X-IBM-Max-Items'' (max_items filter')
        (add_session_headers session
          \<lparr>Method = ''GET'',
           URL = BaseURL session @ ''/restfiles/ds?'' @ Encode (ListDatasets_params session filter'),
           ReqHeader = [], ReqBody = None\<rparr>))"
  have "snd (ListDatasets env session filter' w) = snd (Do env req w)"
    using None
    by (simp add: ListDatasets_def NewRequest_def GetBaseURL_def DatasetsEndpoint_def
        ListDatasets_params_nonempty req_def max_items_def Let_def
        split: prod.splits sum.splits option.splits)
  then have sent: "requests (snd (ListDatasets env session filter' w)) = requests w @ [req]"
    by (simp add: requests_Do)
  have only: "issued w (snd (ListDatasets env session filter' w)) = [req]"
    using sent by (rule issued_append)
  have "URL req = BaseURL session @ ''/restfiles/ds?'' @ Encode (ListDatasets_params session filter')"
    by (simp add: req_def set_header_def add_session_headers_def split: option.splits)
  moreover have "Header_Get (ReqHeader req) ''X-IBM-Max-Items'' = Some (max_items filter')"
    unfolding req_def by (rule max_items_kept)
  ultimately show ?thesis using sent by (simp add: only)
qed

text \<open>
  C6. \<open>ListDatasets\<close> adds at most one request, and exactly one when \<open>http.NewRequest\<close>
  accepts the URL. For a filter that is absent or has neither a name pattern nor a
  volume, the query parameters give \<open>dslevel\<close> the session's user followed by \<open>.*\<close>,
  and the URL is the base URL, \<open>/restfiles/ds?dslevel=\<close>, that value escaped, and the
  \<open>start\<close> parameter when the filter has an owner. For every filter the header
  \<open>X-IBM-Max-Items\<close> of the request is the limit in decimal when the limit is positive
  and \<open>0\<close> otherwise; the query has no keys but \<open>dslevel\<close>, \<open>volser\<close> and \<open>start\<close>, and
  it is the same whatever the limit is.
\<close>

theorem ListDatasets_default_pattern:
  "length (issued w (snd (ListDatasets env session filter' w))) \<le> 1 \<and>
   (NewRequest_error env ''GET''
      (BaseURL session @ ''/restfiles/ds?'' @ Encode (ListDatasets_params session filter')) = None
    \<longrightarrow> length (issued w (snd (ListDatasets env session filter' w))) = 1) \<and>
   (\<forall>r\<in>set (issued w (snd (ListDatasets env session filter' w))).
      Header_Get (ReqHeader r) ''X-IBM-Max-Items'' = Some (max_items filter') \<and>
      URL r = BaseURL session @ ''/restfiles/ds?'' @ Encode (ListDatasets_params session filter')) \<and>
   ((case filter' of None \<Rightarrow> True | Some f \<Rightarrow> Name_Filter f = [] \<and> Volume_Filter f = []) \<longrightarrow>
      map_of (ListDatasets_params session filter') ''dslevel'' = Some (Session_User session @ ''.*'') \<and>
      (\<forall>r\<in>set (issued w (snd (ListDatasets env session filter' w))).
         URL r = BaseURL session @ ''/restfiles/ds?dslevel='' @ QueryEscape (Session_User session @ ''.*'')
                   @ (case filter' of
                        None \<Rightarrow> []
                      | Some f \<Rightarrow> if Owner_Filter f \<noteq> [] then ''&start='' @ QueryEscape (Owner_Filter f)
                                  else []))) \<and>
   fst ` set (ListDatasets_params session filter') \<subseteq> {''dslevel'', ''volser'', ''start''} \<and>
   ListDatasets_params session (map_option (\<lambda>f. f\<lparr>Limit := n\<rparr>) filter') =
     ListDatasets_params session filter'"
proof -
  note sent = ListDatasets_requests [of env session filter' w]
  have each: "\<forall>r\<in>set (issued w (snd (ListDatasets env session filter' w))).
      Header_Get (ReqHeader r) ''X-IBM-Max-Items'' = Some (max_items filter') \<and>
      URL r = BaseURL session @ ''/restfiles/ds?'' @ Encode (ListDatasets_params session filter')"
    using sent [THEN conjunct2, THEN conjunct2, THEN conjunct2] by simp
  have default: "map_of (ListDatasets_params session filter') ''dslevel'' = Some (Session_User session @ ''.*'') \<and>
      (\<forall>r\<in>set (issued w (snd (ListDatasets env session filter' w))).
         URL r = BaseURL session @ ''/restfiles/ds?dslevel='' @ QueryEscape (Session_User session @ ''.*'')
                   @ (case filter' of
                        None \<Rightarrow> []
                      | Some f \<Rightarrow> if Owner_Filter f \<noteq> [] then ''&start='' @ QueryEscape (Owner_Filter f)
                                  else []))"
    if "case filter' of None \<Rightarrow> True | Some f \<Rightarrow> Name_Filter f = [] \<and> Volume_Filter f = []"
    using each ListDatasets_default_query [OF that, of session] by simp
  show ?thesis
    using sent [THEN conjunct2, THEN conjunct1] sent [THEN conjunct2, THEN conjunct2, THEN conjunct1]
      each default
      ListDatasets_params_keys [of session filter'] ListDatasets_params_Limit [of session n filter']
    by blast
qed

theorem ListDatasets_witness:
  "map URL (issued fresh (snd (ListDatasets (scripted [] 0) demo_session
       (Some \<lparr>Name_Filter = [], Type_Filter = [], Volume_Filter = [], Owner_Filter = [], Limit = 25\<rparr>)
       fresh))) = [''https://zos.example.com:10443/zosmf/restfiles/ds?dslevel=IBMUSER.%2A''] \<and>
   map (\<lambda>r. Header_Get (ReqHeader r) ''X-IBM-Max-Items'') (issued fresh (snd (ListDatasets (scripted [] 0)
       demo_session
       (Some \<lparr>Name_Filter = [], Type_Filter = [], Volume_Filter = [], Owner_Filter = [], Limit = 25\<rparr>)
       fresh))) = [Some ''25'']"
proof -
  define f where "f = \<lparr>Name_Filter = [], Type_Filter = [], Volume_Filter = [], Owner_Filter = [], Limit = 25\<rparr>"
  note spec = ListDatasets_default_pattern [of fresh "scripted [] 0" demo_session "Some f"]
  have none: "case Some f of None \<Rightarrow> True | Some f \<Rightarrow> Name_Filter f = [] \<and> Volume_Filter f = []"
    by (simp add: f_def)
  have one: "length (issued fresh (snd (ListDatasets (scripted [] 0) demo_session (Some f) fresh))) = 1"
    using spec [THEN conjunct2, THEN conjunct1] by (simp only: scripted_accepts)
  note header = spec [THEN conjunct2, THEN conjunct2, THEN conjunct1]
  note default = spec [THEN conjunct2, THEN conjunct2, THEN conjunct2, THEN conjunct1, THEN mp, OF none,
      THEN conjunct2]
  have owner: "Owner_Filter f = []"
    by (simp add: f_def)
  have url: "BaseURL demo_session @ ''/restfiles/ds?dslevel='' @ QueryEscape (Session_User demo_session @ ''.*'')
      @ (case Some f of None \<Rightarrow> []
         | Some f \<Rightarrow> if Owner_Filter f \<noteq> [] then ''&start='' @ QueryEscape (Owner_Filter f) else [])
      = ''https://zos.example.com:10443/zosmf/restfiles/ds?dslevel=IBMUSER.%2A''"
    by (simp add: owner QueryEscape_def unreserved_def percent_def demo_session_def)
  have limit: "max_items (Some f) = ''25''"
    by (simp add: max_items_def f_def Itoa_def digit_char_def)
  have "map URL (issued fresh (snd (ListDatasets (scripted [] 0) demo_session (Some f) fresh))) =
      [''https://zos.example.com:10443/zosmf/restfiles/ds?dslevel=IBMUSER.%2A'']"
    using default unfolding url by (rule single_request [OF one])
  moreover have "map (\<lambda>r. Header_Get (ReqHeader r) ''X-IBM-Max-Items'')
      (issued fresh (snd (ListDatasets (scripted [] 0) demo_session (Some f) fresh))) = [Some ''25'']"
    using header unfolding limit by (intro single_request [OF one]) blast
  ultimately show ?thesis unfolding f_def by blast
qed

section \<open>Submitting a job\<close>

lemma submit_body_None:
  "submit_body request = None \<longleftrightarrow>
     JobStatement request = [] \<and> JobDataSet request = [] \<and> JobLocalFile request = []"
  by (simp add: submit_body_def Let_def)

lemma submit_body_json:
  assumes "submit_body request = Some requestBody"
  shows "Marshal_strings requestBody =
     JObject
       (if JobStatement request \<noteq> [] then [(''jobStatement'', JString (JobStatement request))]
        else if JobDataSet request \<noteq> [] then
          (''jobDataSet'', JString (JobDataSet request))
            # (if Volume request \<noteq> [] then [(''volume'', JString (Volume request))] else [])
        else
          (if Directory request \<noteq> [] then [(''directory'', JString (Directory request))] else [])
            @ (if Extension request \<noteq> [] then [(''extension'', JString (Extension request))] else [])
            @ [(''jobLocalFile'', JString (JobLocalFile request))])"
  using assms
  by (auto simp: submit_body_def Marshal_strings_def Marshal_map_def Let_def split: if_splits)

lemma SubmitJob_no_source:
  assumes "submit_body request = None"
  shows "SubmitJob env session request w =
     (Inl (Err ''no job source specified (jobStatement, jobDataSet, or jobLocalFile)''), w)"
  using assms by (simp add: SubmitJob_def)

lemma SubmitJob_rejected:
  assumes "submit_body request = Some requestBody"
    and "NewRequest_error env ''PUT'' (BaseURL session @ ''/restjobs/jobs'') = Some err"
  shows "snd (SubmitJob env session request w) = w"
  using assms by (simp add: SubmitJob_def NewRequest_def GetBaseURL_def JobsEndpoint_def)

lemma SubmitJob_sent:
  assumes "submit_body request = Some requestBody"
    and "NewRequest_error env ''PUT'' (BaseURL session @ ''/restjobs/jobs'') = None"
    and "req = add_session_headers session
           \<lparr>Method = ''PUT'', URL = BaseURL session @ ''/restjobs/jobs'', ReqHeader = [],
            ReqBody = Some (Marshal_strings requestBody)\<rparr>"
  shows "snd (SubmitJob env session request w) = snd (Do env req w)"
    and "fst (SubmitJob env session request w) =
      (case RoundTrip env (length (requests w)) req of
         Inl err \<Rightarrow> Inl (Wrap ''failed to make request: '' (Err err))
       | Inr resp \<Rightarrow>
           if StatusCode resp \<noteq> 201 \<and> StatusCode resp \<noteq> 200 \<and> StatusCode resp \<noteq> 202
           then Inl (api_error resp)
           else (case Decode_SubmitJobResponse env resp of
                   Inl err \<Rightarrow> Inl (Wrap ''failed to decode response: '' (Err err))
                 | Inr submitResponse \<Rightarrow> Inr submitResponse))"
  using assms
  by (simp_all add: SubmitJob_def NewRequest_def GetBaseURL_def JobsEndpoint_def Do_def Let_def
      split: sum.splits)

text \<open>
  C4. A request with none of the three sources makes \<open>SubmitJob\<close> return the error
  \<open>no job source specified\<close> (a plain \<open>fmt.Errorf\<close> value: the source has no error
  types) and leaves the world as it was, so that nothing has been sent. Otherwise at
  most one request is sent, and exactly one when \<open>http.NewRequest\<close> accepts the URL: a
  PUT to the jobs endpoint whose body has the members of the first source that is set
  and no others: \<open>jobStatement\<close> alone; \<open>jobDataSet\<close>, with \<open>volume\<close> when a volume is
  given; \<open>jobLocalFile\<close>, with \<open>directory\<close> and \<open>extension\<close> when they are given. When
  the server answers that request, a status of 200, 201 or 202 leads to the decoded
  answer, and every other status to the error that carries the status and the body.
\<close>

theorem SubmitJob_source_body_status:
  "(JobStatement request = [] \<and> JobDataSet request = [] \<and> JobLocalFile request = [] \<longrightarrow>
      SubmitJob env session request w =
        (Inl (Err ''no job source specified (jobStatement, jobDataSet, or jobLocalFile)''), w) \<and>
      issued w (snd (SubmitJob env session request w)) = []) \<and>
   length (issued w (snd (SubmitJob env session request w))) \<le> 1 \<and>
   (\<not> (JobStatement request = [] \<and> JobDataSet request = [] \<and> JobLocalFile request = []) \<and>
    NewRequest_error env ''PUT'' (BaseURL session @ ''/restjobs/jobs'') = None \<longrightarrow>
      length (issued w (snd (SubmitJob env session request w))) = 1) \<and>
   (\<forall>r\<in>set (issued w (snd (SubmitJob env session request w))).
      Method r = ''PUT'' \<and> URL r = BaseURL session @ ''/restjobs/jobs'' \<and>
      ReqBody r = Some (JObject
        (if JobStatement request \<noteq> [] then [(''jobStatement'', JString (JobStatement request))]
         else if JobDataSet request \<noteq> [] then
           (''jobDataSet'', JString (JobDataSet request))
             # (if Volume request \<noteq> [] then [(''volume'', JString (Volume request))] else [])
         else
           (if Directory request \<noteq> [] then [(''directory'', JString (Directory request))] else [])
             @ (if Extension request \<noteq> [] then [(''extension'', JString (Extension request))] else [])
             @ [(''jobLocalFile'', JString (JobLocalFile request))])) \<and>
      (\<forall>resp. RoundTrip env (length (requests w)) r = Inr resp \<longrightarrow>
         (StatusCode resp \<in> {200, 201, 202} \<longrightarrow>
            fst (SubmitJob env session request w) =
              (case Decode_SubmitJobResponse env resp of
                 Inl err \<Rightarrow> Inl (Wrap ''failed to decode response: '' (Err err))
               | Inr submitResponse \<Rightarrow> Inr submitResponse)) \<and>
         (StatusCode resp \<notin> {200, 201, 202} \<longrightarrow>
            fst (SubmitJob env session request w) =
              Inl (Err (''API request failed with status '' @ Itoa (StatusCode resp) @ '': '' @ Body resp)))))"
proof (cases "submit_body request")
  case None
  have result: "SubmitJob env session request w =
      (Inl (Err ''no job source specified (jobStatement, jobDataSet, or jobLocalFile)''), w)"
    using None by (rule SubmitJob_no_source)
  then have "requests (snd (SubmitJob env session request w)) = requests w @ []"
    by simp
  then have "issued w (snd (SubmitJob env session request w)) = []"
    by (rule issued_append)
  then show ?thesis
    using result None by (simp add: submit_body_None)
next
  case (Some requestBody)
  then have source: "\<not> (JobStatement request = [] \<and> JobDataSet request = [] \<and> JobLocalFile request = [])"
    using submit_body_None [of request] by simp
  show ?thesis
  proof (cases "NewRequest_error env ''PUT'' (BaseURL session @ ''/restjobs/jobs'')")
    case (Some err)
    have "snd (SubmitJob env session request w) = w"
      using \<open>submit_body request = Some requestBody\<close> Some by (rule SubmitJob_rejected)
    then have "requests (snd (SubmitJob env session request w)) = requests w @ []"
      by simp
    then have "issued w (snd (SubmitJob env session request w)) = []"
      by (rule issued_append)
    then show ?thesis
      using source Some by auto
  next
    case None
    define req where "req = add_session_headers session
           \<lparr>Method = ''PUT'', URL = BaseURL session @ ''/restjobs/jobs'', ReqHeader = [],
            ReqBody = Some (Marshal_strings requestBody)\<rparr>"
    note sent = SubmitJob_sent [OF \<open>submit_body request = Some requestBody\<close> None req_def, of w]
    have "requests (snd (SubmitJob env session request w)) = requests w @ [req]"
      using sent(1) by (simp add: requests_Do)
    then have only: "issued w (snd (SubmitJob env session request w)) = [req]"
      by (rule issued_append)
    have fields: "Method req = ''PUT''" "URL req = BaseURL session @ ''/restjobs/jobs''"
      "ReqBody req = Some (Marshal_strings requestBody)"
      by (simp_all add: req_def add_session_headers_def split: option.splits)
    have status: "(StatusCode resp \<in> {200, 201, 202} \<longrightarrow>
            fst (SubmitJob env session request w) =
              (case Decode_SubmitJobResponse env resp of
                 Inl err \<Rightarrow> Inl (Wrap ''failed to decode response: '' (Err err))
               | Inr submitResponse \<Rightarrow> Inr submitResponse)) \<and>
         (StatusCode resp \<notin> {200, 201, 202} \<longrightarrow>
            fst (SubmitJob env session request w) =
              Inl (Err (''API request failed with status '' @ Itoa (StatusCode resp) @ '': '' @ Body resp)))"
      if "RoundTrip env (length (requests w)) req = Inr resp" for resp
      using sent(2) that by (auto simp: api_error_def ReadAll_def)
    show ?thesis
      using source None fields status
      by (simp add: only submit_body_json [OF \<open>submit_body request = Some requestBody\<close>])
  qed
qed

lemma scripted_RoundTrip:
  "RoundTrip (scripted responses rtt) k req =
     (if k < length responses then Inr (responses ! k) else Inl ''connection refused'')"
  by (simp add: scripted_def)

lemma scripted_Decode_SubmitJobResponse:
  "Decode_SubmitJobResponse (scripted responses rtt) resp = from_table submit_documents (Body resp)"
  by (simp add: scripted_def)

theorem SubmitJob_witness:
  \<open>SubmitJob (scripted [] 0) demo_session
     \<lparr>JobStatement = [], JobDataSet = [], JobLocalFile = [], Volume = ''VOL001'', Directory = [],
      Extension = []\<rparr> fresh =
     (Inl (Err ''no job source specified (jobStatement, jobDataSet, or jobLocalFile)''), fresh) \<and>
   map ReqBody (issued fresh (snd (SubmitJob
       (scripted [failed 202 ''{"jobid":"JOB00001","jobname":"INTEGJOB"}''] 0) demo_session
       \<lparr>JobStatement = [], JobDataSet = ''IBMUSER.JCL(JOB1)'', JobLocalFile = ''job.jcl'',
        Volume = ''VOL001'', Directory = ''/tmp'', Extension = ''jcl''\<rparr> fresh))) =
     [Some (JObject [(''jobDataSet'', JString ''IBMUSER.JCL(JOB1)''), (''volume'', JString ''VOL001'')])] \<and>
   fst (SubmitJob
       (scripted [failed 202 ''{"jobid":"JOB00001","jobname":"INTEGJOB"}''] 0) demo_session
       \<lparr>JobStatement = [], JobDataSet = ''IBMUSER.JCL(JOB1)'', JobLocalFile = ''job.jcl'',
        Volume = ''VOL001'', Directory = ''/tmp'', Extension = ''jcl''\<rparr> fresh) =
     Inr \<lparr>Submitted_JobID = ''JOB00001'', Submitted_JobName = ''INTEGJOB''\<rparr>\<close>
proof -
  define none where "none = \<lparr>JobStatement = [], JobDataSet = [], JobLocalFile = [], Volume = ''VOL001'',
      Directory = [], Extension = []\<rparr>"
  define dataset where "dataset = \<lparr>JobStatement = [], JobDataSet = ''IBMUSER.JCL(JOB1)'',
      JobLocalFile = ''job.jcl'', Volume = ''VOL001'', Directory = ''/tmp'', Extension = ''jcl''\<rparr>"
  define resp where \<open>resp = failed 202 ''{"jobid":"JOB00001","jobname":"INTEGJOB"}''\<close>
  have empty: "JobStatement none = [] \<and> JobDataSet none = [] \<and> JobLocalFile none = []"
    by (simp add: none_def)
  have first: "SubmitJob (scripted [] 0) demo_session none fresh =
      (Inl (Err ''no job source specified (jobStatement, jobDataSet, or jobLocalFile)''), fresh)"
    using SubmitJob_source_body_status [of none "scripted [] 0" demo_session fresh, THEN conjunct1,
        THEN mp, OF empty]
    by (rule conjunct1)
  note inst = SubmitJob_source_body_status [of dataset "scripted [resp] 0" demo_session fresh]
  have source: "\<not> (JobStatement dataset = [] \<and> JobDataSet dataset = [] \<and> JobLocalFile dataset = []) \<and>
      NewRequest_error (scripted [resp] 0) ''PUT'' (BaseURL demo_session @ ''/restjobs/jobs'') = None"
    by (simp add: dataset_def scripted_accepts)
  have one: "length (issued fresh (snd (SubmitJob (scripted [resp] 0) demo_session dataset fresh))) = 1"
    using inst [THEN conjunct2, THEN conjunct2, THEN conjunct1, THEN mp, OF source] .
  then obtain r where r: "issued fresh (snd (SubmitJob (scripted [resp] 0) demo_session dataset fresh)) = [r]"
    by (cases "issued fresh (snd (SubmitJob (scripted [resp] 0) demo_session dataset fresh))") auto
  have "r \<in> set (issued fresh (snd (SubmitJob (scripted [resp] 0) demo_session dataset fresh)))"
    by (simp add: r)
  note of_r = inst [THEN conjunct2, THEN conjunct2, THEN conjunct2, THEN bspec, OF this]
  have body: "ReqBody r =
      Some (JObject [(''jobDataSet'', JString ''IBMUSER.JCL(JOB1)''), (''volume'', JString ''VOL001'')])"
    using of_r [THEN conjunct2, THEN conjunct2, THEN conjunct1] by (simp add: dataset_def)
  have answered: "RoundTrip (scripted [resp] 0) (length (requests fresh)) r = Inr resp"
    by (simp add: scripted_RoundTrip requests_fresh)
  have accepted: "StatusCode resp \<in> {200, 201, 202}"
    by (simp add: resp_def failed_def)
  have decoded: "Decode_SubmitJobResponse (scripted [resp] 0) resp =
      Inr \<lparr>Submitted_JobID = ''JOB00001'', Submitted_JobName = ''INTEGJOB''\<rparr>"
    by (simp add: scripted_Decode_SubmitJobResponse resp_def failed_def from_table_def submit_documents_def)
  have result: "fst (SubmitJob (scripted [resp] 0) demo_session dataset fresh) =
      Inr \<lparr>Submitted_JobID = ''JOB00001'', Submitted_JobName = ''INTEGJOB''\<rparr>"
    using of_r [THEN conjunct2, THEN conjunct2, THEN conjunct2, THEN spec, THEN mp, OF answered,
        THEN conjunct1, THEN mp, OF accepted]
    by (simp add: decoded)
  show ?thesis
    using first body result unfolding none_def dataset_def resp_def
    by (simp add: r [unfolded dataset_def resp_def])
qed

section \<open>Listing jobs\<close>

lemma field_matches_jobs: "field_matches ''jobs'' ''jobs''"
  by (simp add: field_matches_def)

text \<open>
  Where the job sequence is not empty, the two shapes of a job list decode to the same
  result.
\<close>

lemma decode_job_list_same_for_jobs:
  assumes "those (map (Job_of_json env) js) = Some jobs" and "jobs \<noteq> []"
    and "Unmarshal env object_text = Some (JObject [(''jobs'', JArray js)])"
    and "Unmarshal env array_text = Some (JArray js)"
  shows "decode_job_list env object_text = Inr \<lparr>Jobs = jobs\<rparr>"
    and "decode_job_list env array_text = Inr \<lparr>Jobs = jobs\<rparr>"
  using assms by (simp_all add: decode_job_list_def field_matches_jobs)

lemma decode_empty_object_shape:
  \<open>decode_job_list (scripted responses rtt) ''{"jobs":[]}'' =
     Inl (Err ''failed to decode response: {"jobs":[]}'')\<close>
  by (simp add: decode_job_list_def scripted_def json_texts_def field_matches_jobs)

lemma decode_empty_array_shape:
  "decode_job_list (scripted responses rtt) ''[]'' = Inr \<lparr>Jobs = []\<rparr>"
  by (simp add: decode_job_list_def scripted_def json_texts_def)

lemma ListJobs_answered:
  assumes "RoundTrip env (length (requests w)) (add_session_headers session
      \<lparr>Method = ''GET'', URL = BaseURL session @ ''/restjobs/jobs'', ReqHeader = [], ReqBody = None\<rparr>)
      = Inr \<lparr>StatusCode = 200, Body = text, BodyError = None\<rparr>"
    and "NewRequest_error env ''GET'' (BaseURL session @ ''/restjobs/jobs'') = None"
  shows "fst (ListJobs env session None w) = decode_job_list env text"
  using assms
  by (simp add: ListJobs_def ListJobs_params_def NewRequest_def GetBaseURL_def JobsEndpoint_def
      Do_def Let_def ReadAll_def)

text \<open>
  C7. A response with status 200 whose body is the object shape of the empty job
  sequence makes \<open>ListJobs\<close> fail with \<open>failed to decode response\<close>, while the array
  shape of the same sequence gives the empty job list: the object is decoded, has no
  job and is not the text \<open>{}\<close>, so the code goes on to decode it as an array.
\<close>

theorem ListJobs_empty_object_fails:
  \<open>fst (ListJobs (scripted [ok ''{"jobs":[]}''] 0) demo_session None fresh) =
     Inl (Err ''failed to decode response: {"jobs":[]}'') \<and>
   fst (ListJobs (scripted [ok ''[]''] 0) demo_session None fresh) = Inr \<lparr>Jobs = []\<rparr>\<close>
proof -
  have \<open>fst (ListJobs (scripted [ok ''{"jobs":[]}''] 0) demo_session None fresh) =
      decode_job_list (scripted [ok ''{"jobs":[]}''] 0) ''{"jobs":[]}''\<close>
    by (rule ListJobs_answered) (simp_all add: scripted_RoundTrip scripted_accepts requests_fresh ok_def)
  moreover have \<open>fst (ListJobs (scripted [ok ''[]''] 0) demo_session None fresh) =
      decode_job_list (scripted [ok ''[]''] 0) ''[]''\<close>
    by (rule ListJobs_answered) (simp_all add: scripted_RoundTrip scripted_accepts requests_fresh ok_def)
  ultimately show ?thesis
    by (simp only: decode_empty_object_shape decode_empty_array_shape)
qed

section \<open>The output of a job\<close>

lemma GetSpoolFileContent_sent:
  assumes "NewRequest_error env ''GET''
      (BaseURL session @ ''/restjobs/jobs/'' @ PathEscape jobID @ ''/files/'' @ Itoa spoolID @ ''/records'') = None"
    and "req = add_session_headers session
      \<lparr>Method = ''GET'',
       URL = BaseURL session @ ''/restjobs/jobs/'' @ PathEscape jobID @ ''/files/'' @ Itoa spoolID @ ''/records'',
       ReqHeader = [], ReqBody = None\<rparr>"
  shows "snd (GetSpoolFileContent env session jobID spoolID w) = snd (Do env req w)"
    and "fst (GetSpoolFileContent env session jobID spoolID w) =
      (case RoundTrip env (length (requests w)) req of
         Inl err \<Rightarrow> Inl (Wrap ''failed to make request: '' (Err err))
       | Inr resp \<Rightarrow>
           if StatusCode resp \<noteq> 200 then Inl (api_error resp)
           else (case BodyError resp of
                   Some err \<Rightarrow> Inl (Wrap ''failed to read response body: '' (Err err))
                 | None \<Rightarrow> Inr (Body resp)))"
  using assms
  by (simp_all add: GetSpoolFileContent_def NewRequest_def GetBaseURL_def JobByCorrelatorEndpoint_def
      RecordsEndpoint_def Do_def Let_def ReadAll_def split: sum.splits option.splits)

lemma GetSpoolFiles_sent:
  assumes "NewRequest_error env ''GET'' (BaseURL session @ ''/restjobs/jobs/'' @ PathEscape jobID @ ''/files'') = None"
    and "req = add_session_headers session
      \<lparr>Method = ''GET'', URL = BaseURL session @ ''/restjobs/jobs/'' @ PathEscape jobID @ ''/files'',
       ReqHeader = [], ReqBody = None\<rparr>"
  shows "snd (GetSpoolFiles env session jobID w) = snd (Do env req w)"
    and "fst (GetSpoolFiles env session jobID w) =
      (case RoundTrip env (length (requests w)) req of
         Inl err \<Rightarrow> Inl (Wrap ''failed to make request: '' (Err err))
       | Inr resp \<Rightarrow>
           if StatusCode resp \<noteq> 200 then Inl (api_error resp)
           else (case Decode_SpoolFiles env resp of
                   Inl err \<Rightarrow> Inl (Wrap ''failed to decode response: '' (Err err))
                 | Inr spoolFiles \<Rightarrow> Inr spoolFiles))"
  using assms
  by (simp_all add: GetSpoolFiles_def NewRequest_def GetBaseURL_def JobByCorrelatorEndpoint_def
      FilesEndpoint_def Do_def Let_def split: sum.splits)

lemma collect_output_kept:
  "map_of (fst (collect_output env session correlator spoolFiles out w)) =
   map_of (rev (kept (fetch_all env session correlator spoolFiles w)) @ out)"
proof (induction spoolFiles arbitrary: out w)
  case Nil
  then show ?case by simp
next
  case (Cons spoolFile rest)
  obtain result w' where step: "GetSpoolFileContent env session correlator (ID spoolFile) w = (result, w')"
    by (cases "GetSpoolFileContent env session correlator (ID spoolFile) w")
  show ?case
  proof (cases result)
    case (Inl err)
    then show ?thesis
      using step Cons.IH [of out w'] by simp
  next
    case (Inr content)
    have "map_of (rev (kept (fetch_all env session correlator rest w'))
              @ AList.update (DDName spoolFile) content out) =
          map_of (rev (kept (fetch_all env session correlator rest w'))
              @ (DDName spoolFile, content) # out)"
      by (simp add: map_of_append update_conv')
    then show ?thesis
      using step Inr Cons.IH [of "AList.update (DDName spoolFile) content out" w'] by simp
  qed
qed

lemma kept_set:
  "set (kept outcomes) = {(DDName spoolFile, content) |spoolFile content. (spoolFile, Inr content) \<in> set outcomes}"
  by (induction outcomes rule: kept.induct) auto

text \<open>
  C10. When listing the spool files succeeds, \<open>GetJobOutput\<close> returns a map and no
  error, whatever the fetches of the contents do: the map is made of the contents
  that were fetched without an error, a later file replacing an earlier one of the
  same DD name, so that its keys are the DD names of the files whose fetch succeeded
  and a file whose fetch failed adds nothing. When listing the spool files fails,
  \<open>GetJobOutput\<close> returns that error, wrapped, and fetches nothing; so it returns an
  error exactly when the listing does.
\<close>

theorem GetJobOutput_skips_failures:
  "(\<forall>spoolFiles.
      fst (GetSpoolFiles env session correlator w) = Inr spoolFiles \<longrightarrow>
      (\<exists>output.
         fst (GetJobOutput env session correlator w) = Inr output \<and>
         map_of output =
           map_of (rev (kept (fetch_all env session correlator spoolFiles
                                (snd (GetSpoolFiles env session correlator w))))) \<and>
         dom (map_of output) =
           {DDName spoolFile |spoolFile content.
              (spoolFile, Inr content) \<in> set (fetch_all env session correlator spoolFiles
                                                (snd (GetSpoolFiles env session correlator w)))})) \<and>
   (\<forall>err.
      fst (GetSpoolFiles env session correlator w) = Inl err \<longrightarrow>
      GetJobOutput env session correlator w =
        (Inl (Wrap ''failed to get spool files: '' err), snd (GetSpoolFiles env session correlator w))) \<and>
   ((\<exists>err. fst (GetJobOutput env session correlator w) = Inl err) \<longleftrightarrow>
    (\<exists>err. fst (GetSpoolFiles env session correlator w) = Inl err))"
proof -
  obtain listed w1 where list: "GetSpoolFiles env session correlator w = (listed, w1)"
    by (cases "GetSpoolFiles env session correlator w")
  show ?thesis
  proof (cases listed)
    case (Inl err)
    then show ?thesis
      using list by (simp add: GetJobOutput_def)
  next
    case (Inr spoolFiles)
    obtain out w2 where loop: "collect_output env session correlator spoolFiles [] w1 = (out, w2)"
      by (cases "collect_output env session correlator spoolFiles [] w1")
    have result: "fst (GetJobOutput env session correlator w) = Inr out"
      using list Inr loop by (simp add: GetJobOutput_def)
    have entries: "map_of out = map_of (rev (kept (fetch_all env session correlator spoolFiles w1)))"
      using collect_output_kept [of env session correlator spoolFiles "[]" w1] loop by simp
    have "dom (map_of out) = fst ` set (kept (fetch_all env session correlator spoolFiles w1))"
      unfolding entries by (simp add: dom_map_of_conv_image_fst)
    also have "\<dots> = {DDName spoolFile |spoolFile content.
        (spoolFile, Inr content) \<in> set (fetch_all env session correlator spoolFiles w1)}"
      unfolding kept_set by force
    finally show ?thesis
      using list Inr result entries by simp
  qed
qed

lemma scripted_Decode_SpoolFiles:
  "Decode_SpoolFiles (scripted responses rtt) resp = from_table spool_documents (Body resp)"
  by (simp add: scripted_def)

lemma scripted_files:
  "fst (GetSpoolFiles (scripted responses rtt) session jobID w) =
     (if length (requests w) < length responses then
        (if StatusCode (responses ! length (requests w)) \<noteq> 200
         then Inl (api_error (responses ! length (requests w)))
         else (case from_table spool_documents (Body (responses ! length (requests w))) of
                 Inl err \<Rightarrow> Inl (Wrap ''failed to decode response: '' (Err err))
               | Inr spoolFiles \<Rightarrow> Inr spoolFiles))
      else Inl (Wrap ''failed to make request: '' (Err ''connection refused'')))"
    "length (requests (snd (GetSpoolFiles (scripted responses rtt) session jobID w))) =
     Suc (length (requests w))"
  by (simp_all add: GetSpoolFiles_sent [OF scripted_accepts refl] scripted_RoundTrip
      scripted_Decode_SpoolFiles requests_Do)

lemma scripted_content:
  "fst (GetSpoolFileContent (scripted responses rtt) session jobID spoolID w) =
     (if length (requests w) < length responses then
        (if StatusCode (responses ! length (requests w)) \<noteq> 200
         then Inl (api_error (responses ! length (requests w)))
         else (case BodyError (responses ! length (requests w)) of
                 Some err \<Rightarrow> Inl (Wrap ''failed to read response body: '' (Err err))
               | None \<Rightarrow> Inr (Body (responses ! length (requests w)))))
      else Inl (Wrap ''failed to make request: '' (Err ''connection refused'')))"
    "length (requests (snd (GetSpoolFileContent (scripted responses rtt) session jobID spoolID w))) =
     Suc (length (requests w))"
  by (simp_all add: GetSpoolFileContent_sent [OF scripted_accepts refl] scripted_RoundTrip requests_Do)

theorem GetJobOutput_witness:
  \<open>\<exists>out.
     fst (GetJobOutput
            (scripted [ok ''[{"id":1,"ddname":"JESMSGLG"},{"id":2,"ddname":"JESJCL"}]'',
                       failed 500 ''spool file not available'', ok ''HELLO''] 0)
            demo_session ''JOB00001'' fresh) = Inr out \<and>
     map_of out ''JESMSGLG'' = None \<and> map_of out ''JESJCL'' = Some ''HELLO''\<close>
proof -
  define env where \<open>env = scripted [ok ''[{"id":1,"ddname":"JESMSGLG"},{"id":2,"ddname":"JESJCL"}]'',
      failed 500 ''spool file not available'', ok ''HELLO''] 0\<close>
  define files where "files = [\<lparr>ID = 1, DDName = ''JESMSGLG''\<rparr>, \<lparr>ID = 2, DDName = ''JESJCL''\<rparr>]"
  have listed: "fst (GetSpoolFiles env demo_session ''JOB00001'' fresh) = Inr files"
    unfolding env_def files_def
    by (simp add: scripted_files requests_fresh ok_def from_table_def spool_documents_def)
  have after: "length (requests (snd (GetSpoolFiles env demo_session ''JOB00001'' fresh))) = 1"
    unfolding env_def by (simp add: scripted_files requests_fresh)
  have fetched: "kept (fetch_all env demo_session ''JOB00001'' files
      (snd (GetSpoolFiles env demo_session ''JOB00001'' fresh))) = [(''JESJCL'', ''HELLO'')]"
    using after unfolding env_def files_def
    by (simp add: scripted_content ok_def failed_def)
  obtain out where out: "fst (GetJobOutput env demo_session ''JOB00001'' fresh) = Inr out"
    "map_of out = map_of (rev (kept (fetch_all env demo_session ''JOB00001'' files
        (snd (GetSpoolFiles env demo_session ''JOB00001'' fresh)))))"
    using GetJobOutput_skips_failures [of env demo_session "''JOB00001''" fresh, THEN conjunct1,
        THEN spec, of files, THEN mp, OF listed]
    by (elim exE conjE)
  have "map_of out ''JESMSGLG'' = None \<and> map_of out ''JESJCL'' = Some ''HELLO''"
    unfolding out(2) fetched by simp
  with out(1) show ?thesis
    unfolding env_def by (intro exI [of _ out]) simp
qed

section \<open>Waiting for a job\<close>

lemma sleeps_Do: "sleeps (snd (Do env req w)) = sleeps w"
  by (simp add: Do_def sleeps_def Let_def)

lemma clock_Do: "clock w \<le> clock (snd (Do env req w))"
  by (simp add: Do_def Let_def)

lemma GetJobStatus_world:
  "(snd (GetJobStatus env session jobID w) = w \<and> (\<exists>err. fst (GetJobStatus env session jobID w) = Inl err)) \<or>
   (\<exists>req. snd (GetJobStatus env session jobID w) = snd (Do env req w))"
proof (cases "NewRequest_error env ''GET'' (BaseURL session @ ''/restjobs/jobs/'' @ PathEscape jobID)")
  case (Some err)
  then have "GetJobStatus env session jobID w = (Inl (Wrap ''failed to create request: '' (Err err)), w)"
    by (simp add: GetJobStatus_def GetJob_def NewRequest_def GetBaseURL_def JobByCorrelatorEndpoint_def)
  then show ?thesis by simp
next
  case None
  define req where "req = add_session_headers session
      \<lparr>Method = ''GET'', URL = BaseURL session @ ''/restjobs/jobs/'' @ PathEscape jobID,
       ReqHeader = [], ReqBody = None\<rparr>"
  have "snd (GetJobStatus env session jobID w) = snd (Do env req w)"
    using None
    by (simp add: GetJobStatus_def GetJob_def NewRequest_def GetBaseURL_def JobByCorrelatorEndpoint_def
        req_def Do_def Let_def split: sum.splits)
  then show ?thesis by blast
qed

lemma GetJobStatus_clock: "clock w \<le> clock (snd (GetJobStatus env session jobID w))"
  using GetJobStatus_world [of env session jobID w] clock_Do by fastforce

lemma GetJobStatus_polled:
  assumes "fst (GetJobStatus env session jobID w) = Inr status"
  shows "length (requests (snd (GetJobStatus env session jobID w))) = Suc (length (requests w))"
    and "sleeps (snd (GetJobStatus env session jobID w)) = sleeps w"
  using GetJobStatus_world [of env session jobID w] assms
  by (auto simp: requests_Do sleeps_Do)

lemma wait_loop_timeout:
  assumes "clock w - startTime > timeout"
  shows "wait_loop env session correlator timeout pollInterval startTime w =
     Some (Inl (Err (''timeout waiting for job '' @ correlator @ '' to complete'')), w)"
  using assms by (subst wait_loop.simps) simp

lemma wait_loop_error:
  assumes "clock w - startTime \<le> timeout"
    and "fst (GetJobStatus env session correlator w) = Inl err"
  shows "wait_loop env session correlator timeout pollInterval startTime w =
     Some (Inl (Wrap ''failed to get job status: '' err), snd (GetJobStatus env session correlator w))"
proof -
  obtain result w' where poll: "GetJobStatus env session correlator w = (result, w')"
    by (cases "GetJobStatus env session correlator w")
  then show ?thesis
    using assms by (subst wait_loop.simps) simp
qed

lemma wait_loop_status:
  assumes "clock w - startTime \<le> timeout"
    and "fst (GetJobStatus env session correlator w) = Inr status"
  shows "wait_loop env session correlator timeout pollInterval startTime w =
     (if isJobComplete status then Some (Inr status, snd (GetJobStatus env session correlator w))
      else wait_loop env session correlator timeout pollInterval startTime
             (Sleep pollInterval (snd (GetJobStatus env session correlator w))))"
proof -
  obtain result w' where poll: "GetJobStatus env session correlator w = (result, w')"
    by (cases "GetJobStatus env session correlator w")
  then show ?thesis
    using assms by (subst wait_loop.simps) simp
qed

lemma wait_loop_rounds:
  assumes "\<forall>k<n. clock (rounds env session correlator pollInterval k w) - startTime \<le> timeout \<and>
      (\<exists>status. fst (GetJobStatus env session correlator (rounds env session correlator pollInterval k w))
                   = Inr status \<and> \<not> isJobComplete status)"
  shows "wait_loop env session correlator timeout pollInterval startTime w =
      wait_loop env session correlator timeout pollInterval startTime
        (rounds env session correlator pollInterval n w) \<and>
    length (requests (rounds env session correlator pollInterval n w)) = length (requests w) + n \<and>
    sleeps (rounds env session correlator pollInterval n w) = sleeps w @ replicate n pollInterval"
  using assms
proof (induction n arbitrary: w)
  case 0
  then show ?case by simp
next
  case (Suc n)
  from Suc.prems have first: "clock w - startTime \<le> timeout"
    by (metis rounds.simps(1) zero_less_Suc)
  from Suc.prems obtain status where status:
    "fst (GetJobStatus env session correlator w) = Inr status" "\<not> isJobComplete status"
    by (metis rounds.simps(1) zero_less_Suc)
  define w' where "w' = poll_round env session correlator pollInterval w"
  have step: "wait_loop env session correlator timeout pollInterval startTime w =
      wait_loop env session correlator timeout pollInterval startTime w'"
    using wait_loop_status [OF first status(1)] status(2) by (simp add: w'_def poll_round_def)
  have count: "length (requests w') = Suc (length (requests w))"
    using GetJobStatus_polled(1) [OF status(1)] by (simp add: w'_def poll_round_def requests_Sleep)
  have slept: "sleeps w' = sleeps w @ [pollInterval]"
    using GetJobStatus_polled(2) [OF status(1)]
    by (simp add: w'_def poll_round_def Sleep_def sleeps_def)
  have later: "\<forall>k<n. clock (rounds env session correlator pollInterval k w') - startTime \<le> timeout \<and>
      (\<exists>status. fst (GetJobStatus env session correlator (rounds env session correlator pollInterval k w'))
                   = Inr status \<and> \<not> isJobComplete status)"
  proof (intro allI impI)
    fix k assume "k < n"
    then have "Suc k < Suc n" by simp
    with Suc.prems show "clock (rounds env session correlator pollInterval k w') - startTime \<le> timeout \<and>
      (\<exists>status. fst (GetJobStatus env session correlator (rounds env session correlator pollInterval k w'))
                   = Inr status \<and> \<not> isJobComplete status)"
      unfolding w'_def by (metis rounds.simps(2))
  qed
  have "rounds env session correlator pollInterval (Suc n) w =
      rounds env session correlator pollInterval n w'"
    by (simp add: w'_def)
  moreover have "replicate (Suc n) pollInterval = [pollInterval] @ replicate n pollInterval"
    by simp
  ultimately show ?case
    using Suc.IH [OF later] step count slept by (simp del: replicate.simps rounds.simps)
qed

lemma wait_loop_returns:
  assumes "0 < pollInterval"
  shows "wait_loop env session correlator timeout pollInterval startTime w \<noteq> None"
proof (induction "nat (timeout + 1 - (clock w - startTime))" arbitrary: w rule: less_induct)
  case less
  show ?case
  proof (cases "clock w - startTime > timeout")
    case True
    then show ?thesis by (simp add: wait_loop_timeout)
  next
    case False
    then have within: "clock w - startTime \<le> timeout" by simp
    show ?thesis
    proof (cases "fst (GetJobStatus env session correlator w)")
      case (Inl err)
      then show ?thesis using wait_loop_error [OF within Inl] by simp
    next
      case (Inr status)
      show ?thesis
      proof (cases "isJobComplete status")
        case True
        then show ?thesis using wait_loop_status [OF within Inr] by simp
      next
        case False
        define w' where "w' = Sleep pollInterval (snd (GetJobStatus env session correlator w))"
        have "clock w' = clock (snd (GetJobStatus env session correlator w)) + pollInterval"
          using assms by (simp add: w'_def Sleep_def)
        then have "clock w < clock w'"
          using GetJobStatus_clock [of w env session correlator] assms by linarith
        then have "nat (timeout + 1 - (clock w' - startTime)) < nat (timeout + 1 - (clock w - startTime))"
          using within by linarith
        then have "wait_loop env session correlator timeout pollInterval startTime w' \<noteq> None"
          by (rule less)
        then show ?thesis
          using wait_loop_status [OF within Inr] False by (simp add: w'_def)
      qed
    qed
  qed
qed

text \<open>
  C2. \<open>WaitForJobCompletion\<close> is the loop started at the clock's reading. At the head
  of a round the loop compares the elapsed time with the timeout before it polls: when
  the elapsed time exceeds the timeout it returns the error \<open>timeout waiting for job\<close>
  (a plain \<open>fmt.Errorf\<close> value: the source has no error types) and leaves the world as
  it is, so no poll is made. Otherwise it polls once: an error of the poll is returned
  at once, wrapped, with no further poll; a completed status is returned; any other
  status makes the loop sleep \<open>pollInterval\<close> and go on. So for every number of rounds
  in which the time is within the timeout and the status is not complete, the loop
  goes on after that many polls and that many sleeps of \<open>pollInterval\<close>: nothing but
  the timeout bounds the number of polls. And with a positive \<open>pollInterval\<close> the
  loop always returns.
\<close>

theorem WaitForJobCompletion_polling:
  "WaitForJobCompletion env session correlator timeout pollInterval w0 =
     wait_loop env session correlator timeout pollInterval (clock w0) w0 \<and>
   (clock w - startTime > timeout \<longrightarrow>
      wait_loop env session correlator timeout pollInterval startTime w =
        Some (Inl (Err (''timeout waiting for job '' @ correlator @ '' to complete'')), w)) \<and>
   (clock w - startTime \<le> timeout \<longrightarrow>
      (\<forall>err. fst (GetJobStatus env session correlator w) = Inl err \<longrightarrow>
         wait_loop env session correlator timeout pollInterval startTime w =
           Some (Inl (Wrap ''failed to get job status: '' err), snd (GetJobStatus env session correlator w))) \<and>
      (\<forall>status. fst (GetJobStatus env session correlator w) = Inr status \<longrightarrow>
         wait_loop env session correlator timeout pollInterval startTime w =
           (if isJobComplete status
            then Some (Inr status, snd (GetJobStatus env session correlator w))
            else wait_loop env session correlator timeout pollInterval startTime
                   (Sleep pollInterval (snd (GetJobStatus env session correlator w)))))) \<and>
   ((\<forall>k<n. clock (rounds env session correlator pollInterval k w) - startTime \<le> timeout \<and>
            (\<exists>status. fst (GetJobStatus env session correlator
                              (rounds env session correlator pollInterval k w)) = Inr status \<and>
                       \<not> isJobComplete status)) \<longrightarrow>
      wait_loop env session correlator timeout pollInterval startTime w =
        wait_loop env session correlator timeout pollInterval startTime
          (rounds env session correlator pollInterval n w) \<and>
      length (requests (rounds env session correlator pollInterval n w)) = length (requests w) + n \<and>
      sleeps (rounds env session correlator pollInterval n w) = sleeps w @ replicate n pollInterval) \<and>
   (0 < pollInterval \<longrightarrow>
      wait_loop env session correlator timeout pollInterval startTime w \<noteq> None)"
  using wait_loop_timeout [of timeout w startTime env session correlator pollInterval]
    wait_loop_error [of w startTime timeout env session correlator _ pollInterval]
    wait_loop_status [of w startTime timeout env session correlator _ pollInterval]
    wait_loop_rounds [of n env session correlator pollInterval w startTime timeout]
    wait_loop_returns [of pollInterval env session correlator timeout startTime w]
  by (simp add: WaitForJobCompletion_def)

lemma scripted_Decode_Job:
  "Decode_Job (scripted responses rtt) resp = from_table job_documents (Body resp)"
  by (simp add: scripted_def)

lemma scripted_RoundTripTime: "RoundTripTime (scripted responses rtt) k = rtt"
  by (simp add: scripted_def)

lemma GetJobStatus_sent:
  assumes "NewRequest_error env ''GET'' (BaseURL session @ ''/restjobs/jobs/'' @ PathEscape jobID) = None"
    and "req = add_session_headers session
      \<lparr>Method = ''GET'', URL = BaseURL session @ ''/restjobs/jobs/'' @ PathEscape jobID,
       ReqHeader = [], ReqBody = None\<rparr>"
  shows "snd (GetJobStatus env session jobID w) = snd (Do env req w)"
    and "fst (GetJobStatus env session jobID w) =
      (case RoundTrip env (length (requests w)) req of
         Inl err \<Rightarrow> Inl (Wrap ''failed to make request: '' (Err err))
       | Inr resp \<Rightarrow>
           if StatusCode resp \<noteq> 200 then Inl (api_error resp)
           else (case Decode_Job env resp of
                   Inl err \<Rightarrow> Inl (Wrap ''failed to decode response: '' (Err err))
                 | Inr job \<Rightarrow> Inr (Status job)))"
  using assms
  by (simp_all add: GetJobStatus_def GetJob_def NewRequest_def GetBaseURL_def JobByCorrelatorEndpoint_def
      Do_def Let_def split: sum.splits)

lemma scripted_status:
  "fst (GetJobStatus (scripted responses rtt) session jobID w) =
     (if length (requests w) < length responses then
        (if StatusCode (responses ! length (requests w)) \<noteq> 200
         then Inl (api_error (responses ! length (requests w)))
         else (case from_table job_documents (Body (responses ! length (requests w))) of
                 Inl err \<Rightarrow> Inl (Wrap ''failed to decode response: '' (Err err))
               | Inr job \<Rightarrow> Inr (Status job)))
      else Inl (Wrap ''failed to make request: '' (Err ''connection refused'')))"
    "length (requests (snd (GetJobStatus (scripted responses rtt) session jobID w))) =
     Suc (length (requests w))"
    "clock (snd (GetJobStatus (scripted responses rtt) session jobID w)) = clock w + int rtt"
proof -
  note sent = GetJobStatus_sent [OF scripted_accepts refl, of responses rtt session jobID w]
  show "fst (GetJobStatus (scripted responses rtt) session jobID w) =
     (if length (requests w) < length responses then
        (if StatusCode (responses ! length (requests w)) \<noteq> 200
         then Inl (api_error (responses ! length (requests w)))
         else (case from_table job_documents (Body (responses ! length (requests w))) of
                 Inl err \<Rightarrow> Inl (Wrap ''failed to decode response: '' (Err err))
               | Inr job \<Rightarrow> Inr (Status job)))
      else Inl (Wrap ''failed to make request: '' (Err ''connection refused'')))"
    by (simp add: sent(2) scripted_RoundTrip scripted_Decode_Job)
  show "length (requests (snd (GetJobStatus (scripted responses rtt) session jobID w))) =
     Suc (length (requests w))"
    by (simp add: sent(1) requests_Do)
  show "clock (snd (GetJobStatus (scripted responses rtt) session jobID w)) = clock w + int rtt"
    by (simp add: sent(1) Do_def scripted_RoundTripTime Let_def)
qed

lemma complete_OUTPUT: "isJobComplete ''OUTPUT''"
  by (simp add: isJobComplete_def completedStatuses_def ToUpper_def upper_byte_def
      lower_letters_def upper_letters_def HasPrefix_def)

lemma incomplete_ACTIVE: "\<not> isJobComplete ''ACTIVE''"
  by (simp add: isJobComplete_def completedStatuses_def ToUpper_def upper_byte_def
      lower_letters_def upper_letters_def HasPrefix_def)

theorem WaitForJobCompletion_witness:
  \<open>map_option fst (WaitForJobCompletion
       (scripted [ok ''{"status":"ACTIVE"}'', ok ''{"status":"OUTPUT"}''] 2)
       demo_session ''JOB00001'' 100 5 fresh) = Some (Inr ''OUTPUT'') \<and>
   WaitForJobCompletion (scripted [] 0) demo_session ''JOB00001'' (- 1) 5 fresh =
     Some (Inl (Err ''timeout waiting for job JOB00001 to complete''), fresh) \<and>
   map_option fst (WaitForJobCompletion (scripted [] 0) demo_session ''JOB00001'' 100 5 fresh) =
     Some (Inl (Wrap ''failed to get job status: ''
                 (Wrap ''failed to make request: '' (Err ''connection refused''))))\<close>
proof -
  define env where \<open>env = scripted [ok ''{"status":"ACTIVE"}'', ok ''{"status":"OUTPUT"}''] 2\<close>
  define w1 where "w1 = rounds env demo_session ''JOB00001'' 5 1 fresh"
  have start: "clock fresh = 0"
    by (simp add: fresh_def)
  have active: "fst (GetJobStatus env demo_session ''JOB00001'' fresh) = Inr ''ACTIVE''"
    unfolding env_def
    by (simp add: scripted_status requests_fresh ok_def from_table_def job_documents_def)
  have first: "\<forall>k<1. clock (rounds env demo_session ''JOB00001'' 5 k fresh) - clock fresh \<le> 100 \<and>
      (\<exists>status. fst (GetJobStatus env demo_session ''JOB00001''
                        (rounds env demo_session ''JOB00001'' 5 k fresh)) = Inr status \<and>
                 \<not> isJobComplete status)"
    using active incomplete_ACTIVE by (simp add: start)
  note go_on = WaitForJobCompletion_polling [of env demo_session "''JOB00001''" 100 5 fresh fresh
      "clock fresh" 1, THEN conjunct2, THEN conjunct2, THEN conjunct2, THEN conjunct1, THEN mp, OF first]
  have polled: "length (requests w1) = 1"
    using go_on [THEN conjunct2, THEN conjunct1] by (simp add: w1_def requests_fresh)
  have time: "clock w1 = 7"
    unfolding w1_def env_def
    by (simp add: poll_round_def Sleep_def scripted_status start)
  have within: "clock w1 - clock fresh \<le> 100"
    by (simp add: time start)
  have complete: "fst (GetJobStatus env demo_session ''JOB00001'' w1) = Inr ''OUTPUT''"
    using polled unfolding env_def
    by (simp add: scripted_status ok_def from_table_def job_documents_def)
  have finished: "wait_loop env demo_session ''JOB00001'' 100 5 (clock fresh) w1 =
      Some (Inr ''OUTPUT'', snd (GetJobStatus env demo_session ''JOB00001'' w1))"
    using WaitForJobCompletion_polling [of env demo_session "''JOB00001''" 100 5 fresh w1
        "clock fresh" 0, THEN conjunct2, THEN conjunct2, THEN conjunct1, THEN mp, OF within,
        THEN conjunct2, THEN spec, THEN mp, OF complete]
    by (simp add: complete_OUTPUT)
  have run: "map_option fst (WaitForJobCompletion env demo_session ''JOB00001'' 100 5 fresh) =
      Some (Inr ''OUTPUT'')"
    using WaitForJobCompletion_polling [of env demo_session "''JOB00001''" 100 5 fresh fresh
        "clock fresh" 0, THEN conjunct1]
      go_on [THEN conjunct1] finished
    by (simp add: w1_def)
  have late: "clock fresh - clock fresh > - 1"
    by simp
  have timeout: "WaitForJobCompletion (scripted [] 0) demo_session ''JOB00001'' (- 1) 5 fresh =
      Some (Inl (Err ''timeout waiting for job JOB00001 to complete''), fresh)"
    using WaitForJobCompletion_polling [of "scripted [] 0" demo_session "''JOB00001''" "- 1" 5 fresh fresh
        "clock fresh" 0, THEN conjunct1]
      WaitForJobCompletion_polling [of "scripted [] 0" demo_session "''JOB00001''" "- 1" 5 fresh fresh
        "clock fresh" 0, THEN conjunct2, THEN conjunct1, THEN mp, OF late]
    by simp
  have refused: "fst (GetJobStatus (scripted [] 0) demo_session ''JOB00001'' fresh) =
      Inl (Wrap ''failed to make request: '' (Err ''connection refused''))"
    by (simp add: scripted_status)
  have early: "clock fresh - clock fresh \<le> 100"
    by simp
  have abort: "map_option fst (WaitForJobCompletion (scripted [] 0) demo_session ''JOB00001'' 100 5 fresh) =
      Some (Inl (Wrap ''failed to get job status: ''
                  (Wrap ''failed to make request: '' (Err ''connection refused''))))"
    using WaitForJobCompletion_polling [of "scripted [] 0" demo_session "''JOB00001''" 100 5 fresh fresh
        "clock fresh" 0, THEN conjunct1]
      WaitForJobCompletion_polling [of "scripted [] 0" demo_session "''JOB00001''" 100 5 fresh fresh
        "clock fresh" 0, THEN conjunct2, THEN conjunct2, THEN conjunct1, THEN mp, OF early,
        THEN conjunct1, THEN spec, THEN mp, OF refused]
    by simp
  show ?thesis
    using run timeout abort unfolding env_def by simp
qed

end
